theory Spec2Isabelle
  imports Main "HOL-Library.Word" "HOL-Library.Sublist"
begin

section \<open>JavaScript strings and numbers\<close>

text \<open>
  A JavaScript string is a sequence of UTF-16 code units: \<open>length\<close>, \<open>slice\<close>,
  \<open>includes\<close> and \<open>split\<close> all count code units. The model keeps that: a string is a
  list of 16-bit words. ASCII text is written with \<open>js\<close>; a character outside ASCII is
  written as its code units (a character beyond the basic plane is a surrogate pair).
\<close>

type_synonym jschar = "16 word"
type_synonym jsstring = "jschar list"

definition js :: "string \<Rightarrow> jsstring" where
  "js s = map of_char s"

text \<open>\<open>s.slice(0, n)\<close> for a non-negative constant \<open>n\<close>.\<close>

definition slice0 :: "nat \<Rightarrow> jsstring \<Rightarrow> jsstring" where
  "slice0 n s = take n s"

text \<open>\<open>s.includes(sub)\<close>: \<open>sub\<close> occurs somewhere in \<open>s\<close> as a contiguous run.\<close>

fun str_includes :: "jsstring \<Rightarrow> jsstring \<Rightarrow> bool" where
  "str_includes [] sub = (sub = [])"
| "str_includes (c # cs) sub = (prefix sub (c # cs) \<or> str_includes cs sub)"

text \<open>
  \<open>s.split(sep)\<close> for a one-character separator: the pieces between the separators, in
  order; the result always has at least one piece. \<open>split_acc\<close> carries the piece being
  read.
\<close>

fun split_acc :: "jschar \<Rightarrow> jsstring \<Rightarrow> jsstring \<Rightarrow> jsstring list" where
  "split_acc sep cur [] = [cur]"
| "split_acc sep cur (c # cs) =
     (if c = sep then cur # split_acc sep [] cs else split_acc sep (cur @ [c]) cs)"

definition split_js :: "jschar \<Rightarrow> jsstring \<Rightarrow> jsstring list" where
  "split_js sep s = split_acc sep [] s"

text \<open>\<open>xs.pop()\<close>: the last element, \<open>undefined\<close> (here \<open>None\<close>) on an empty array.\<close>

definition pop :: "'a list \<Rightarrow> 'a option" where
  "pop xs = (case rev xs of [] \<Rightarrow> None | x # _ \<Rightarrow> Some x)"

text \<open>
  Truthiness. An optional string is truthy when it is present and not empty; an optional
  number is truthy when it is present and not zero. \<open>a || b\<close> on strings keeps \<open>a\<close> when
  it is truthy.
\<close>

definition truthy_str :: "jsstring option \<Rightarrow> bool" where
  "truthy_str v = (case v of None \<Rightarrow> False | Some s \<Rightarrow> s \<noteq> [])"

definition truthy_int :: "int option \<Rightarrow> bool" where
  "truthy_int v = (case v of None \<Rightarrow> False | Some n \<Rightarrow> n \<noteq> 0)"

definition or_else :: "jsstring option \<Rightarrow> jsstring \<Rightarrow> jsstring" where
  "or_else v d = (case v of None \<Rightarrow> d | Some s \<Rightarrow> if s \<noteq> [] then s else d)"

text \<open>
  A non-negative integer rendered by a template literal: its decimal digits, most
  significant first.
\<close>

definition digit :: "nat \<Rightarrow> jschar" where
  "digit d = of_nat (48 + d)"

function decimal :: "nat \<Rightarrow> jsstring" where
  "decimal n = (if n < 10 then [digit n] else decimal (n div 10) @ [digit (n mod 10)])"
  by pat_completeness auto
termination
  by (relation "measure (\<lambda>n. n)") auto

declare decimal.simps [simp del]

text \<open>
  The retry delay of the rate limiter is a floating-point number of seconds. The handlers
  only pass it on and format it with \<open>toFixed(1)\<close>; the model keeps the type abstract
  and takes the formatting from the runtime.
\<close>

typedecl jsfloat

section \<open>The fixed texts of the handlers\<close>

definition MSG_UNAUTHORIZED :: jsstring where
  "MSG_UNAUTHORIZED = js ''Unauthorized. Contact the bot owner for access.''"

definition MSG_NOT_CONFIGURED :: jsstring where
  "MSG_NOT_CONFIGURED =
     js ''Voice transcription is not configured. Set OPENAI_API_KEY in .env''"

text \<open>U+1F3A4 (microphone) is the surrogate pair D83C DFA4.\<close>

definition MSG_TRANSCRIBING :: jsstring where
  "MSG_TRANSCRIBING = [0xD83C, 0xDFA4] @ js '' Transcribing audio...''"

text \<open>U+274C (cross mark) is one code unit.\<close>

definition MSG_TRANSCRIPTION_FAILED :: jsstring where
  "MSG_TRANSCRIPTION_FAILED = [0x274C] @ js '' Transcription failed.''"

text \<open>U+1F6D1 (stop sign) is the surrogate pair D83D DED1.\<close>

definition MSG_QUERY_STOPPED :: jsstring where
  "MSG_QUERY_STOPPED = [0xD83D, 0xDED1] @ js '' Query stopped.''"

definition ERROR_PREFIX :: jsstring where
  "ERROR_PREFIX = [0x274C] @ js '' Error: ''"

definition MSG_AUDIO_DOWNLOAD_FAILED :: jsstring where
  "MSG_AUDIO_DOWNLOAD_FAILED = [0x274C] @ js '' Failed to download audio file.''"

text \<open>U+1F4F9 (video camera) is the surrogate pair D83D DCF9.\<close>

definition MSG_DOWNLOADING_VIDEO :: jsstring where
  "MSG_DOWNLOADING_VIDEO = [0xD83D, 0xDCF9] @ js '' Downloading video...''"

definition MSG_VIDEO_DOWNLOAD_FAILED :: jsstring where
  "MSG_VIDEO_DOWNLOAD_FAILED = [0x274C] @ js '' Failed to download video.''"

definition MSG_PROCESSING_VIDEO :: jsstring where
  "MSG_PROCESSING_VIDEO = [0xD83D, 0xDCF9] @ js '' Processing video...''"

definition MAX_VIDEO_SIZE :: nat where
  "MAX_VIDEO_SIZE = 50 * 1024 * 1024"

text \<open>
  The size-exceeded text interpolates \<open>MAX_VIDEO_SIZE / 1024 / 1024\<close>; both divisions
  are exact.
\<close>

definition MSG_VIDEO_TOO_LARGE :: jsstring where
  "MSG_VIDEO_TOO_LARGE =
     [0x274C] @ js '' Video too large. Maximum size is ''
       @ decimal (MAX_VIDEO_SIZE div 1024 div 1024) @ js ''MB.''"

text \<open>U+23F3 (hourglass) is one code unit.\<close>

definition rate_limited_text :: "jsstring \<Rightarrow> jsstring" where
  "rate_limited_text secs =
     [0x23F3] @ js '' Rate limited. Please wait '' @ secs @ js '' seconds.''"

definition SEPARATOR :: jsstring where
  "SEPARATOR = [0x0A, 0x0A] @ js ''---'' @ [0x0A, 0x0A]"

definition ELLIPSIS :: jsstring where
  "ELLIPSIS = [0x2026]"

text \<open>
  What \<open>retryAfter!.toFixed(1)\<close> throws when the limiter gave no delay, in the words
  of the Bun runtime; the apostrophe is code unit 0x27.
\<close>

definition TYPE_ERROR :: jsstring where
  "TYPE_ERROR =
     js ''TypeError: undefined is not an object (evaluating '' @ [0x27]
       @ js ''retryAfter.toFixed'' @ [0x27] @ js '')''"

definition NO_VIDEO_ERROR :: jsstring where
  "NO_VIDEO_ERROR = js ''Error: No video in message''"

section \<open>Effects: a trace of collaborator calls, with exceptions\<close>

text \<open>
  The handlers are asynchronous procedures that call collaborators (the chat transport,
  the rate limiter, the transcription engine, the session, the audit sink, the file
  system) and may throw. One invocation is modelled as a function from a state to a
  result and a new state: the result is either a thrown value, kept as the text that
  \<open>String(error)\<close> gives, or a returned value. The state holds the trace of collaborator
  calls made so far, in order, and the two session fields the handlers read: whether a
  conversation is active, and the interrupt flag. The assignment to
  \<open>session.conversationTitle\<close> is recorded in the trace as \<open>SetConversationTitle\<close>.
  Calls to \<open>console\<close> and the construction of the streaming state and status callback
  are not recorded.
\<close>

record message =
  message_id :: nat
  message_chat_id :: int

datatype event =
    Reply jsstring
  | EditMessageText int nat jsstring
  | DeleteMessage int nat
  | GetFile
  | Fetch jsstring
  | BunWrite jsstring "nat list"
  | UnlinkSync jsstring
  | RateLimiterCheck int
  | AuditLogRateLimit int jsstring "jsfloat option"
  | AuditLog int jsstring jsstring jsstring jsstring
  | StartProcessing
  | StopProcessing
  | StartTypingIndicator
  | TypingStop
  | TranscribeVoice jsstring
  | SetConversationTitle jsstring
  | SendMessageStreaming jsstring jsstring int int
  | ConsumeInterruptFlag
  | HandleProcessingError jsstring

record st =
  trace :: "event list"
  isActive :: bool
  interruptFlag :: bool

type_synonym 'a io = "st \<Rightarrow> (jsstring + 'a) \<times> st"

definition io_return :: "'a \<Rightarrow> 'a io" where
  "io_return a s = (Inr a, s)"

definition io_throw :: "jsstring \<Rightarrow> 'a io" where
  "io_throw e s = (Inl e, s)"

definition io_bind :: "'a io \<Rightarrow> ('a \<Rightarrow> 'b io) \<Rightarrow> 'b io" where
  "io_bind m f s = (case m s of (Inl e, s') \<Rightarrow> (Inl e, s') | (Inr a, s') \<Rightarrow> f a s')"

definition io_seq :: "'a io \<Rightarrow> 'b io \<Rightarrow> 'b io" where
  "io_seq m k = io_bind m (\<lambda>_. k)"

text \<open>\<open>try { m } catch (error) { h }\<close>\<close>

definition try_catch :: "'a io \<Rightarrow> (jsstring \<Rightarrow> 'a io) \<Rightarrow> 'a io" where
  "try_catch m h s = (case m s of (Inl e, s') \<Rightarrow> h e s' | (Inr a, s') \<Rightarrow> (Inr a, s'))"

text \<open>
  \<open>try { m } finally { fin }\<close>: the finaliser runs however \<open>m\<close> ended; when it ends
  normally the outcome of \<open>m\<close> stands, when it throws its exception replaces it.
\<close>

definition try_finally :: "'a io \<Rightarrow> unit io \<Rightarrow> 'a io" where
  "try_finally m fin s =
     (case m s of (r, s1) \<Rightarrow>
        (case fin s1 of (Inl e, s2) \<Rightarrow> (Inl e, s2) | (Inr _, s2) \<Rightarrow> (r, s2)))"

text \<open>A collaborator call: it is recorded, and ends as the collaborator decides.\<close>

definition call :: "event \<Rightarrow> (jsstring + 'a) \<Rightarrow> 'a io" where
  "call e r s = (r, s\<lparr>trace := trace s @ [e]\<rparr>)"

section \<open>The incoming event and the collaborators\<close>

record audio_t =
  audio_file_name :: "jsstring option"

record video_t =
  video_file_size :: "nat option"

text \<open>The fields of the grammY context that the handlers read.\<close>

record ctx =
  from_id :: "int option"
  from_username :: "jsstring option"
  chat_id :: "int option"
  msg_audio :: "audio_t option"
  msg_video :: "video_t option"
  msg_video_note :: "video_t option"
  msg_caption :: "jsstring option"
  api_token :: jsstring

text \<open>
  The configuration constants and, for every collaborator call, how it ends in this
  invocation: \<open>Inl e\<close> when it throws \<open>e\<close>, \<open>Inr v\<close> when it returns \<open>v\<close>. The
  collaborators themselves are outside these source files. Every awaited call may
  throw, and so may \<open>unlinkSync\<close>, which the code guards. The outcome of a reply or an
  edit is given per text, of a fetch per URL and of a write or a transcription per path:
  within one invocation no handler sends the same text, or uses the same URL or path,
  twice.
\<close>

record world =
  TRANSCRIPTION_AVAILABLE :: bool
  ALLOWED_USERS :: "int list"
  TEMP_DIR :: jsstring
  rateLimiter_check :: "int \<Rightarrow> bool \<times> jsfloat option"
  toFixed1 :: "jsfloat \<Rightarrow> jsstring"
  date_now :: nat
  reply_result :: "jsstring \<Rightarrow> jsstring + message"
  edit_result :: "jsstring \<Rightarrow> jsstring + unit"
  delete_result :: "jsstring + unit"
  getFile_result :: "jsstring + jsstring"
  fetch_result :: "jsstring \<Rightarrow> jsstring + nat list"
  write_result :: "jsstring \<Rightarrow> jsstring + unit"
  unlink_result :: "jsstring + unit"
  transcribe_result :: "jsstring \<Rightarrow> jsstring + jsstring option"
  stream_result :: "jsstring \<Rightarrow> jsstring + jsstring"
  auditLog_result :: "jsstring + unit"
  auditLogRateLimit_result :: "jsstring + unit"
  handleProcessingError_result :: "jsstring \<Rightarrow> jsstring + unit"

definition reply :: "world \<Rightarrow> jsstring \<Rightarrow> message io" where
  "reply w text = call (Reply text) (reply_result w text)"

definition editMessageText :: "world \<Rightarrow> int \<Rightarrow> nat \<Rightarrow> jsstring \<Rightarrow> unit io" where
  "editMessageText w chatId msgId text = call (EditMessageText chatId msgId text) (edit_result w text)"

definition deleteMessage :: "world \<Rightarrow> int \<Rightarrow> nat \<Rightarrow> unit io" where
  "deleteMessage w chatId msgId = call (DeleteMessage chatId msgId) (delete_result w)"

definition getFile :: "world \<Rightarrow> jsstring io" where
  "getFile w = call GetFile (getFile_result w)"

text \<open>\<open>fetch(url)\<close> followed by \<open>response.arrayBuffer()\<close>.\<close>

definition fetch :: "world \<Rightarrow> jsstring \<Rightarrow> (nat list) io" where
  "fetch w url = call (Fetch url) (fetch_result w url)"

definition bunWrite :: "world \<Rightarrow> jsstring \<Rightarrow> nat list \<Rightarrow> unit io" where
  "bunWrite w path buffer = call (BunWrite path buffer) (write_result w path)"

definition unlinkSync :: "world \<Rightarrow> jsstring \<Rightarrow> unit io" where
  "unlinkSync w path = call (UnlinkSync path) (unlink_result w)"

definition rateLimiterCheck :: "world \<Rightarrow> int \<Rightarrow> (bool \<times> jsfloat option) io" where
  "rateLimiterCheck w userId = call (RateLimiterCheck userId) (Inr (rateLimiter_check w userId))"

definition auditLogRateLimit :: "world \<Rightarrow> int \<Rightarrow> jsstring \<Rightarrow> jsfloat option \<Rightarrow> unit io" where
  "auditLogRateLimit w userId username retryAfter =
     call (AuditLogRateLimit userId username retryAfter) (auditLogRateLimit_result w)"

definition auditLog ::
  "world \<Rightarrow> int \<Rightarrow> jsstring \<Rightarrow> jsstring \<Rightarrow> jsstring \<Rightarrow> jsstring \<Rightarrow> unit io" where
  "auditLog w userId username kind input output =
     call (AuditLog userId username kind input output) (auditLog_result w)"

definition transcribeVoice :: "world \<Rightarrow> jsstring \<Rightarrow> (jsstring option) io" where
  "transcribeVoice w filePath = call (TranscribeVoice filePath) (transcribe_result w filePath)"

definition handleProcessingError :: "world \<Rightarrow> jsstring \<Rightarrow> unit io" where
  "handleProcessingError w error =
     call (HandleProcessingError error) (handleProcessingError_result w error)"

text \<open>
  The session. \<open>startProcessing\<close> returns the release callback \<open>stopProcessing\<close>;
  \<open>startTypingIndicator\<close> returns a handle whose \<open>stop\<close> is \<open>typingStop\<close>. These
  four calls are synchronous and unguarded in the code, like \<open>rateLimiter.check\<close> and
  \<open>consumeInterruptFlag\<close>, and are taken not to throw. \<open>sendMessageStreaming\<close> ends as
  the backend decides.
\<close>

definition startProcessing :: "unit io" where
  "startProcessing = call StartProcessing (Inr ())"

definition stopProcessing :: "unit io" where
  "stopProcessing = call StopProcessing (Inr ())"

definition startTypingIndicator :: "unit io" where
  "startTypingIndicator = call StartTypingIndicator (Inr ())"

definition typingStop :: "unit io" where
  "typingStop = call TypingStop (Inr ())"

definition sendMessageStreaming ::
  "world \<Rightarrow> jsstring \<Rightarrow> jsstring \<Rightarrow> int \<Rightarrow> int \<Rightarrow> jsstring io" where
  "sendMessageStreaming w prompt username userId chatId =
     call (SendMessageStreaming prompt username userId chatId) (stream_result w prompt)"

definition getIsActive :: "bool io" where
  "getIsActive s = (Inr (isActive s), s)"

definition setConversationTitle :: "jsstring \<Rightarrow> unit io" where
  "setConversationTitle title = call (SetConversationTitle title) (Inr ())"

text \<open>\<open>if (!session.isActive) { session.conversationTitle = title; }\<close>\<close>

definition setTitleIfNew :: "jsstring \<Rightarrow> unit io" where
  "setTitleIfNew title =
     io_bind getIsActive (\<lambda>active.
       if \<not> active then setConversationTitle title else io_return ())"

text \<open>
  Modelled from the spec: \<open>session.consumeInterruptFlag\<close> is in the session module, which
  is not among these source files; the spec gives it as a one-shot read-and-clear of the
  interrupt flag.
\<close>

definition consumeInterruptFlag :: "bool io" where
  "consumeInterruptFlag s =
     (Inr (interruptFlag s), s\<lparr>trace := trace s @ [ConsumeInterruptFlag], interruptFlag := False\<rparr>)"

text \<open>
  Modelled from the spec: \<open>isAuthorized\<close> is in the security module, which is not among
  these source files; the spec gives it as a static allow-list check.
\<close>

definition isAuthorized :: "int \<Rightarrow> int list \<Rightarrow> bool" where
  "isAuthorized userId allowList = (userId \<in> set allowList)"

section \<open>The audio handler\<close>

text \<open>
  The status edit shows the transcript, cut to 4000 code units and followed by U+2026
  when it is longer, between the microphone and a pair of double quotes.
\<close>

definition displayTranscript :: "jsstring \<Rightarrow> jsstring" where
  "displayTranscript transcript =
     (if length transcript > 4000 then slice0 4000 transcript @ ELLIPSIS else transcript)"

definition transcript_text :: "jsstring \<Rightarrow> jsstring" where
  "transcript_text transcript =
     [0xD83C, 0xDFA4, 0x20, 0x22] @ displayTranscript transcript @ [0x22]"

text \<open>The prompt: the transcript, then the separator and the caption when \<open>caption\<close> is truthy.\<close>

definition audio_prompt :: "jsstring \<Rightarrow> jsstring option \<Rightarrow> jsstring" where
  "audio_prompt transcript caption =
     (case caption of
        None \<Rightarrow> transcript
      | Some c \<Rightarrow> if c \<noteq> [] then transcript @ SEPARATOR @ c else transcript)"

definition audio_title :: "jsstring \<Rightarrow> jsstring" where
  "audio_title transcript =
     (if length transcript > 50 then slice0 47 transcript @ js ''...'' else transcript)"

text \<open>
  The \<open>catch\<close> block of \<open>processAudioFile\<close>. It receives whatever the guarded region
  threw: the first reply, the transcription call, a status edit, the streaming call
  or the audit call.
\<close>

definition audio_catch :: "world \<Rightarrow> jsstring \<Rightarrow> unit io" where
  "audio_catch w error =
     (if str_includes error (js ''abort'') \<or> str_includes error (js ''cancel'') then
        io_bind consumeInterruptFlag (\<lambda>wasInterrupt.
          if \<not> wasInterrupt then io_seq (reply w MSG_QUERY_STOPPED) (io_return ())
          else io_return ())
      else io_seq (reply w (ERROR_PREFIX @ slice0 200 error)) (io_return ()))"

text \<open>The \<open>finally\<close> block: a failure to delete the file is caught and only logged.\<close>

definition audio_finally :: "world \<Rightarrow> jsstring \<Rightarrow> unit io" where
  "audio_finally w filePath =
     io_seq stopProcessing
       (io_seq typingStop
          (try_catch (unlinkSync w filePath) (\<lambda>error. io_return ())))"

text \<open>The guarded region, from the first reply to the audit call.\<close>

definition audio_try ::
  "world \<Rightarrow> jsstring \<Rightarrow> jsstring option \<Rightarrow> int \<Rightarrow> jsstring \<Rightarrow> int \<Rightarrow> unit io" where
  "audio_try w filePath caption userId username chatId =
     io_bind (reply w MSG_TRANSCRIBING) (\<lambda>statusMsg.
     io_bind (transcribeVoice w filePath) (\<lambda>transcript.
       if \<not> truthy_str transcript then
         editMessageText w chatId (message_id statusMsg) MSG_TRANSCRIPTION_FAILED
       else
         (case transcript of
            None \<Rightarrow> io_return ()
          | Some t \<Rightarrow>
              io_seq (editMessageText w chatId (message_id statusMsg) (transcript_text t))
             (io_seq (setTitleIfNew (audio_title t))
             (io_bind (sendMessageStreaming w (audio_prompt t caption) username userId chatId)
                (\<lambda>claudeResponse.
                   auditLog w userId username (js ''AUDIO'') t claudeResponse))))))"

definition processAudioFile ::
  "world \<Rightarrow> jsstring \<Rightarrow> jsstring option \<Rightarrow> int \<Rightarrow> jsstring \<Rightarrow> int \<Rightarrow> unit io" where
  "processAudioFile w filePath caption userId username chatId =
     (if \<not> TRANSCRIPTION_AVAILABLE w then
        io_seq (reply w MSG_NOT_CONFIGURED) (io_return ())
      else
        io_seq startProcessing
       (io_seq startTypingIndicator
          (try_finally
             (try_catch (audio_try w filePath caption userId username chatId) (audio_catch w))
             (audio_finally w filePath))))"

text \<open>
  The extension of the scratch file: \<open>audio.file_name?.split(".").pop() || "mp3"\<close>.
\<close>

definition audio_ext :: "jsstring option \<Rightarrow> jsstring" where
  "audio_ext file_name =
     or_else (case file_name of None \<Rightarrow> None | Some n \<Rightarrow> pop (split_js 0x2E n)) (js ''mp3'')"

definition audio_path :: "jsstring \<Rightarrow> nat \<Rightarrow> jsstring \<Rightarrow> jsstring" where
  "audio_path tempDir timestamp ext =
     tempDir @ js ''/audio_'' @ decimal timestamp @ js ''.'' @ ext"

definition file_url :: "jsstring \<Rightarrow> jsstring \<Rightarrow> jsstring" where
  "file_url token file_path =
     js ''https://api.telegram.org/file/bot'' @ token @ js ''/'' @ file_path"

text \<open>The \<open>try\<close> block of step 3 of \<open>handleAudio\<close>; it yields \<open>audioPath\<close>.\<close>

definition downloadAudio :: "world \<Rightarrow> ctx \<Rightarrow> audio_t \<Rightarrow> jsstring io" where
  "downloadAudio w c audio =
     io_bind (getFile w) (\<lambda>file_path.
       let timestamp = date_now w;
           ext = audio_ext (audio_file_name audio);
           audioPath = audio_path (TEMP_DIR w) timestamp ext
       in io_bind (fetch w (file_url (api_token c) file_path)) (\<lambda>buffer.
          io_seq (bunWrite w audioPath buffer) (io_return audioPath)))"

definition handleAudio :: "world \<Rightarrow> ctx \<Rightarrow> unit io" where
  "handleAudio w c =
     (let username = or_else (from_username c) (js ''unknown'') in
      if \<not> truthy_int (from_id c) \<or> \<not> truthy_int (chat_id c) \<or> msg_audio c = None then
        io_return ()
      else
        (case (from_id c, chat_id c, msg_audio c) of
           (Some userId, Some chatId, Some audio) \<Rightarrow>
             if \<not> isAuthorized userId (ALLOWED_USERS w) then
               io_seq (reply w MSG_UNAUTHORIZED) (io_return ())
             else
               io_bind (rateLimiterCheck w userId) (\<lambda>(allowed, retryAfter).
                 if \<not> allowed then
                   io_seq (auditLogRateLimit w userId username retryAfter)
                     (case retryAfter of
                        None \<Rightarrow> io_throw TYPE_ERROR
                      | Some r \<Rightarrow>
                          io_seq (reply w (rate_limited_text (toFixed1 w r))) (io_return ()))
                 else
                   io_bind
                     (try_catch
                        (io_bind (downloadAudio w c audio) (\<lambda>p. io_return (Some p)))
                        (\<lambda>error. io_seq (reply w MSG_AUDIO_DOWNLOAD_FAILED) (io_return None)))
                     (\<lambda>audioPath.
                        case audioPath of
                          None \<Rightarrow> io_return ()
                        | Some p \<Rightarrow> processAudioFile w p (msg_caption c) userId username chatId))
         | _ \<Rightarrow> io_return ()))"

section \<open>The video handler\<close>

text \<open>\<open>ctx.message?.video || ctx.message?.video_note\<close>\<close>

definition video_of :: "ctx \<Rightarrow> video_t option" where
  "video_of c = (case msg_video c of Some v \<Rightarrow> Some v | None \<Rightarrow> msg_video_note c)"

text \<open>\<open>ctx.message?.video_note ? "mp4" : "mp4"\<close>\<close>

definition video_extension :: "ctx \<Rightarrow> jsstring" where
  "video_extension c = (if msg_video_note c \<noteq> None then js ''mp4'' else js ''mp4'')"

definition video_path :: "jsstring \<Rightarrow> nat \<Rightarrow> jsstring \<Rightarrow> jsstring" where
  "video_path tempDir timestamp extension =
     tempDir @ js ''/video_'' @ decimal timestamp @ js ''.'' @ extension"

definition downloadVideo :: "world \<Rightarrow> ctx \<Rightarrow> jsstring io" where
  "downloadVideo w c =
     (if video_of c = None then io_throw NO_VIDEO_ERROR
      else
        io_bind (getFile w) (\<lambda>file_path.
          let timestamp = date_now w;
              extension = video_extension c;
              videoPath = video_path (TEMP_DIR w) timestamp extension
          in io_bind (fetch w (file_url (api_token c) file_path)) (\<lambda>buffer.
             io_seq (bunWrite w videoPath buffer) (io_return videoPath))))"

text \<open>\<open>video.file_size && video.file_size > MAX_VIDEO_SIZE\<close>\<close>

definition size_exceeded :: "video_t \<Rightarrow> bool" where
  "size_exceeded video =
     (case video_file_size video of None \<Rightarrow> False | Some n \<Rightarrow> n \<noteq> 0 \<and> n > MAX_VIDEO_SIZE)"

text \<open>The two prompt templates; the apostrophe is code unit 0x27.\<close>

definition video_prompt :: "jsstring \<Rightarrow> jsstring option \<Rightarrow> jsstring" where
  "video_prompt videoPath caption =
     (let transcribe_request =
            js ''I'' @ [0x27] @ js ''ve received a video file at path: '' @ videoPath
              @ [0x0A, 0x0A] @ js ''Please transcribe it for me.''
      in case caption of
           None \<Rightarrow> transcribe_request
         | Some c \<Rightarrow>
             if c \<noteq> [] then
               js ''Here'' @ [0x27] @ js ''s a video file at path: '' @ videoPath
                 @ [0x0A, 0x0A] @ js ''User says: '' @ c
             else transcribe_request)"

definition video_title :: "jsstring option \<Rightarrow> jsstring" where
  "video_title caption =
     (let rawTitle = or_else caption (js ''[Video]'') in
      if length rawTitle > 50 then slice0 47 rawTitle @ js ''...'' else rawTitle)"

definition video_try ::
  "world \<Rightarrow> message \<Rightarrow> jsstring \<Rightarrow> jsstring option \<Rightarrow> int \<Rightarrow> jsstring \<Rightarrow> int \<Rightarrow> unit io" where
  "video_try w statusMsg videoPath caption userId username chatId =
     io_seq (editMessageText w chatId (message_id statusMsg) MSG_PROCESSING_VIDEO)
    (io_seq (setTitleIfNew (video_title caption))
    (io_bind (sendMessageStreaming w (video_prompt videoPath caption) username userId chatId)
       (\<lambda>response.
          io_seq (auditLog w userId username (js ''VIDEO'')
                    (or_else caption (js ''[video]'')) response)
            (try_catch
               (deleteMessage w (message_chat_id statusMsg) (message_id statusMsg))
               (\<lambda>error. io_return ())))))"

definition video_catch :: "world \<Rightarrow> message \<Rightarrow> jsstring \<Rightarrow> unit io" where
  "video_catch w statusMsg error =
     io_seq
       (try_catch
          (deleteMessage w (message_chat_id statusMsg) (message_id statusMsg))
          (\<lambda>error. io_return ()))
       (handleProcessingError w error)"

definition video_finally :: "unit io" where
  "video_finally = io_seq stopProcessing typingStop"

text \<open>Step 5 of \<open>handleVideo\<close>, from the acquisition of the lock to the end.\<close>

definition video_process ::
  "world \<Rightarrow> message \<Rightarrow> jsstring \<Rightarrow> jsstring option \<Rightarrow> int \<Rightarrow> jsstring \<Rightarrow> int \<Rightarrow> unit io" where
  "video_process w statusMsg videoPath caption userId username chatId =
     io_seq startProcessing
    (io_seq startTypingIndicator
       (try_finally
          (try_catch
             (video_try w statusMsg videoPath caption userId username chatId)
             (video_catch w statusMsg))
          video_finally))"

definition handleVideo :: "world \<Rightarrow> ctx \<Rightarrow> unit io" where
  "handleVideo w c =
     (let username = or_else (from_username c) (js ''unknown'');
          caption = msg_caption c
      in
      if \<not> truthy_int (from_id c) \<or> \<not> truthy_int (chat_id c) \<or> video_of c = None then
        io_return ()
      else
        (case (from_id c, chat_id c, video_of c) of
           (Some userId, Some chatId, Some video) \<Rightarrow>
             if \<not> isAuthorized userId (ALLOWED_USERS w) then
               io_seq (reply w MSG_UNAUTHORIZED) (io_return ())
             else if size_exceeded video then
               io_seq (reply w MSG_VIDEO_TOO_LARGE) (io_return ())
             else
               io_bind (rateLimiterCheck w userId) (\<lambda>(allowed, retryAfter).
                 if \<not> allowed then
                   io_seq (auditLogRateLimit w userId username retryAfter)
                     (case retryAfter of
                        None \<Rightarrow> io_throw TYPE_ERROR
                      | Some r \<Rightarrow>
                          io_seq (reply w (rate_limited_text (toFixed1 w r))) (io_return ()))
                 else
                   io_bind (reply w MSG_DOWNLOADING_VIDEO) (\<lambda>statusMsg.
                   io_bind
                     (try_catch
                        (io_bind (downloadVideo w c) (\<lambda>p. io_return (Some p)))
                        (\<lambda>error.
                           io_seq (editMessageText w chatId (message_id statusMsg)
                                     MSG_VIDEO_DOWNLOAD_FAILED)
                             (io_return None)))
                     (\<lambda>videoPath.
                        case videoPath of
                          None \<Rightarrow> io_return ()
                        | Some p \<Rightarrow>
                            video_process w statusMsg p caption userId username chatId)))
         | _ \<Rightarrow> io_return ()))"

text \<open>An invocation starts with an empty trace on a session in some state.\<close>

definition init :: "bool \<Rightarrow> bool \<Rightarrow> st" where
  "init active flag = \<lparr>trace = [], isActive = active, interruptFlag = flag\<rparr>"

section \<open>Reading a trace\<close>

text \<open>The acquisitions and releases of the processing lock, in order.\<close>

definition lock_events :: "event list \<Rightarrow> event list" where
  "lock_events es = filter (\<lambda>e. e = StartProcessing \<or> e = StopProcessing) es"

text \<open>The titles assigned, the prompts sent and the files written, in order.\<close>

fun title_writes :: "event list \<Rightarrow> jsstring list" where
  "title_writes [] = []"
| "title_writes (SetConversationTitle t # es) = t # title_writes es"
| "title_writes (e # es) = title_writes es"

fun sent_prompts :: "event list \<Rightarrow> jsstring list" where
  "sent_prompts [] = []"
| "sent_prompts (SendMessageStreaming p u i c # es) = p # sent_prompts es"
| "sent_prompts (e # es) = sent_prompts es"

fun written_paths :: "event list \<Rightarrow> jsstring list" where
  "written_paths [] = []"
| "written_paths (BunWrite p b # es) = p # written_paths es"
| "written_paths (e # es) = written_paths es"

section \<open>Observations that a computation leaves alone\<close>

text \<open>
  Two notions for reasoning about every path of a handler at once. \<open>frame f m\<close>: running
  \<open>m\<close> never changes the observation \<open>f\<close> of the state, however \<open>m\<close> ends.
  \<open>post f Q m\<close>: the observations before and after \<open>m\<close> are related by \<open>Q\<close>. The
  observations used are the lock events of the trace (\<open>lk\<close>), the activity flag with
  the titles assigned (\<open>tw\<close>), the prompts sent (\<open>sp\<close>) and the paths written (\<open>wp\<close>).
\<close>

definition frame :: "(st \<Rightarrow> 'b) \<Rightarrow> 'a io \<Rightarrow> bool" where
  "frame f m \<longleftrightarrow> (\<forall>s. f (snd (m s)) = f s)"

definition post :: "(st \<Rightarrow> 'b) \<Rightarrow> ('b \<Rightarrow> 'b \<Rightarrow> bool) \<Rightarrow> 'a io \<Rightarrow> bool" where
  "post f Q m \<longleftrightarrow> (\<forall>s. Q (f s) (f (snd (m s))))"

definition lk :: "st \<Rightarrow> event list" where
  "lk s = lock_events (trace s)"

definition tw :: "st \<Rightarrow> bool \<times> jsstring list" where
  "tw s = (isActive s, title_writes (trace s))"

definition once_locked :: "event list \<Rightarrow> event list \<Rightarrow> bool" where
  "once_locked x y \<longleftrightarrow> y = x \<or> y = x @ [StartProcessing, StopProcessing]"

definition once_titled :: "bool \<times> jsstring list \<Rightarrow> bool \<times> jsstring list \<Rightarrow> bool" where
  "once_titled x y \<longleftrightarrow>
     fst y = fst x \<and> (snd y = snd x \<or> (\<not> fst x \<and> (\<exists>T. snd y = snd x @ [T])))"

definition sp :: "st \<Rightarrow> jsstring list" where
  "sp s = sent_prompts (trace s)"

definition wp :: "st \<Rightarrow> jsstring list" where
  "wp s = written_paths (trace s)"

definition at_most_one :: "'a \<Rightarrow> 'a list \<Rightarrow> 'a list \<Rightarrow> bool" where
  "at_most_one a x y \<longleftrightarrow> y = x \<or> y = x @ [a]"

section \<open>A sequence of turns\<close>

text \<open>
  Whether a conversation is active is kept by the session module, outside these source
  files: the handlers only read it. A sequence of invocations on one session therefore
  comes with the value that the session reports at the start of each turn. A
  conversation is started by a turn at which the session reports none active, and lasts
  while the session reports it active.
\<close>

datatype media = Audio | Video

record turn =
  turn_media :: media
  turn_world :: world
  turn_ctx :: ctx
  turn_active :: bool

definition run_turn :: "turn \<Rightarrow> st \<Rightarrow> st" where
  "run_turn t s =
     snd ((case turn_media t of
             Audio \<Rightarrow> handleAudio (turn_world t) (turn_ctx t)
           | Video \<Rightarrow> handleVideo (turn_world t) (turn_ctx t))
          (s\<lparr>isActive := turn_active t\<rparr>))"

fun run_turns :: "turn list \<Rightarrow> st \<Rightarrow> st" where
  "run_turns [] s = s"
| "run_turns (t # ts) s = run_turns ts (run_turn t s)"

section \<open>Sample collaborators and events\<close>

text \<open>
  A world in which every collaborator succeeds, and one audio and one video event of an
  allowed user; the video declares 60 MiB.
\<close>

definition world_ok :: world where
  "world_ok =
     \<lparr>TRANSCRIPTION_AVAILABLE = True,
      ALLOWED_USERS = [42],
      TEMP_DIR = js ''/tmp/bot'',
      rateLimiter_check = (\<lambda>_. (True, None)),
      toFixed1 = (\<lambda>_. []),
      date_now = 1700000000000,
      reply_result = (\<lambda>_. Inr \<lparr>message_id = 7, message_chat_id = 100\<rparr>),
      edit_result = (\<lambda>_. Inr ()),
      delete_result = Inr (),
      getFile_result = Inr (js ''music/file_1.mp3''),
      fetch_result = (\<lambda>_. Inr [1, 2, 3]),
      write_result = (\<lambda>_. Inr ()),
      unlink_result = Inr (),
      transcribe_result = (\<lambda>_. Inr (Some (js ''hello world''))),
      stream_result = (\<lambda>_. Inr (js ''hi'')),
      auditLog_result = Inr (),
      auditLogRateLimit_result = Inr (),
      handleProcessingError_result = (\<lambda>_. Inr ())\<rparr>"

definition ctx_audio :: ctx where
  "ctx_audio =
     \<lparr>from_id = Some 42, from_username = Some (js ''alice''), chat_id = Some 100,
      msg_audio = Some \<lparr>audio_file_name = Some (js ''Song.MP3'')\<rparr>,
      msg_video = None, msg_video_note = None, msg_caption = None,
      api_token = js ''TOKEN''\<rparr>"

definition ctx_video :: ctx where
  "ctx_video =
     \<lparr>from_id = Some 42, from_username = Some (js ''alice''), chat_id = Some 100,
      msg_audio = None,
      msg_video = Some \<lparr>video_file_size = Some 62914560\<rparr>, msg_video_note = None,
      msg_caption = None, api_token = js ''TOKEN''\<rparr>"

section \<open>Unfolding the model\<close>

lemmas io_defs =
  io_return_def io_throw_def io_bind_def io_seq_def try_catch_def try_finally_def call_def

lemmas prim_defs =
  reply_def editMessageText_def deleteMessage_def getFile_def fetch_def bunWrite_def
  unlinkSync_def rateLimiterCheck_def auditLogRateLimit_def auditLog_def transcribeVoice_def
  handleProcessingError_def startProcessing_def stopProcessing_def startTypingIndicator_def
  typingStop_def sendMessageStreaming_def getIsActive_def setConversationTitle_def
  setTitleIfNew_def consumeInterruptFlag_def

section \<open>Frame rules\<close>

lemma frame_return: "frame f (io_return a)"
  by (simp add: frame_def io_return_def)

lemma frame_throw: "frame f (io_throw e)"
  by (simp add: frame_def io_throw_def)

lemma frame_call: "(\<And>s. f (s\<lparr>trace := trace s @ [e]\<rparr>) = f s) \<Longrightarrow> frame f (call e r)"
  by (simp add: frame_def call_def)

lemma frame_bind: "frame f m \<Longrightarrow> (\<And>a. frame f (k a)) \<Longrightarrow> frame f (io_bind m k)"
  by (auto simp: frame_def io_bind_def split: prod.splits sum.splits) (metis snd_conv)+

lemma frame_seq: "frame f m \<Longrightarrow> frame f k \<Longrightarrow> frame f (io_seq m k)"
  by (simp add: io_seq_def frame_bind)

lemma frame_try_catch: "frame f m \<Longrightarrow> (\<And>e. frame f (h e)) \<Longrightarrow> frame f (try_catch m h)"
  by (auto simp: frame_def try_catch_def split: prod.splits sum.splits) (metis snd_conv)+

lemma frame_try_finally: "frame f m \<Longrightarrow> frame f fin \<Longrightarrow> frame f (try_finally m fin)"
  by (auto simp: frame_def try_finally_def split: prod.splits sum.splits) (metis snd_conv)+

lemma frame_if: "frame f m \<Longrightarrow> frame f k \<Longrightarrow> frame f (if b then m else k)"
  by simp

lemma frame_case_option:
  "frame f m \<Longrightarrow> (\<And>a. frame f (k a)) \<Longrightarrow> frame f (case v of None \<Rightarrow> m | Some a \<Rightarrow> k a)"
  by (simp split: option.splits)

lemma frame_case_prod: "(\<And>a b. frame f (k a b)) \<Longrightarrow> frame f (case v of (a, b) \<Rightarrow> k a b)"
  by (simp split: prod.splits)

lemma frame_getIsActive: "frame f getIsActive"
  by (simp add: frame_def getIsActive_def)

lemmas frame_intros = frame_return frame_throw frame_call frame_bind frame_seq frame_try_catch
  frame_try_finally frame_if frame_case_option frame_case_prod frame_getIsActive

lemma title_writes_append: "title_writes (xs @ ys) = title_writes xs @ title_writes ys"
  by (induction xs rule: title_writes.induct) simp_all

lemma frame_lk_prims:
  "frame lk (reply w text)"
  "frame lk (editMessageText w chatId msgId text)"
  "frame lk (deleteMessage w chatId msgId)"
  "frame lk (getFile w)"
  "frame lk (fetch w url)"
  "frame lk (bunWrite w path buffer)"
  "frame lk (unlinkSync w path)"
  "frame lk (rateLimiterCheck w userId)"
  "frame lk (auditLogRateLimit w userId username retryAfter)"
  "frame lk (auditLog w userId username kind input output)"
  "frame lk (transcribeVoice w filePath)"
  "frame lk (handleProcessingError w error)"
  "frame lk startTypingIndicator"
  "frame lk typingStop"
  "frame lk (sendMessageStreaming w prompt username userId chatId)"
  "frame lk (setTitleIfNew title)"
  "frame lk consumeInterruptFlag"
  by (simp_all add: frame_def lk_def lock_events_def prim_defs io_defs)

lemma frame_tw_prims:
  "frame tw (reply w text)"
  "frame tw (editMessageText w chatId msgId text)"
  "frame tw (deleteMessage w chatId msgId)"
  "frame tw (getFile w)"
  "frame tw (fetch w url)"
  "frame tw (bunWrite w path buffer)"
  "frame tw (unlinkSync w path)"
  "frame tw (rateLimiterCheck w userId)"
  "frame tw (auditLogRateLimit w userId username retryAfter)"
  "frame tw (auditLog w userId username kind input output)"
  "frame tw (transcribeVoice w filePath)"
  "frame tw (handleProcessingError w error)"
  "frame tw startProcessing"
  "frame tw stopProcessing"
  "frame tw startTypingIndicator"
  "frame tw typingStop"
  "frame tw (sendMessageStreaming w prompt username userId chatId)"
  "frame tw consumeInterruptFlag"
  by (simp_all add: frame_def tw_def title_writes_append prim_defs io_defs)

lemma frame_lk_audio_catch: "frame lk (audio_catch w error)"
  unfolding audio_catch_def by (intro frame_intros frame_lk_prims)

lemma frame_tw_audio_catch: "frame tw (audio_catch w error)"
  unfolding audio_catch_def by (intro frame_intros frame_tw_prims)

lemma frame_lk_audio_try: "frame lk (audio_try w filePath caption userId username chatId)"
  unfolding audio_try_def by (intro frame_intros frame_lk_prims)

lemma frame_tw_audio_finally: "frame tw (audio_finally w filePath)"
  unfolding audio_finally_def by (intro frame_intros frame_tw_prims)

lemma lk_audio_finally: "lk (snd (audio_finally w filePath s)) = lk s @ [StopProcessing]"
  by (simp add: audio_finally_def lk_def lock_events_def prim_defs io_defs split: sum.splits)

lemma snd_try_finally: "snd (try_finally m fin s) = snd (fin (snd (m s)))"
  by (simp add: try_finally_def split: prod.splits sum.splits)

lemma locked_region:
  assumes "frame lk body" and "\<And>s. lk (snd (fin s)) = lk s @ [StopProcessing]"
  shows "lk (snd (io_seq startProcessing (io_seq startTypingIndicator (try_finally body fin)) s))
           = lk s @ [StartProcessing, StopProcessing]"
proof -
  let ?s1 = "s\<lparr>trace := trace s @ [StartProcessing, StartTypingIndicator]\<rparr>"
  have run: "io_seq startProcessing (io_seq startTypingIndicator (try_finally body fin)) s
               = try_finally body fin ?s1"
    by (simp add: io_defs startProcessing_def startTypingIndicator_def)
  have "lk (snd (body ?s1)) = lk ?s1"
    using assms(1) by (simp add: frame_def)
  moreover have "lk ?s1 = lk s @ [StartProcessing]"
    by (simp add: lk_def lock_events_def)
  ultimately show ?thesis
    by (simp add: run snd_try_finally assms(2))
qed

lemma post_frame: "frame f m \<Longrightarrow> (\<And>x. Q x x) \<Longrightarrow> post f Q m"
  by (simp add: frame_def post_def)

lemma post_bind:
  assumes "frame f m" and "\<And>x. Q x x" and "\<And>a. post f Q (k a)"
  shows "post f Q (io_bind m k)"
  unfolding post_def
proof
  fix s
  obtain r s1 where ms: "m s = (r, s1)" by (cases "m s")
  have fs1: "f s1 = f s" using assms(1) ms by (metis frame_def snd_conv)
  show "Q (f s) (f (snd (io_bind m k s)))"
  proof (cases r)
    case (Inl e)
    then show ?thesis using ms fs1 assms(2) by (simp add: io_bind_def)
  next
    case (Inr a)
    have "Q (f s1) (f (snd (k a s1)))" using assms(3) by (simp add: post_def)
    then show ?thesis using ms fs1 Inr by (simp add: io_bind_def)
  qed
qed

lemma post_seq: "frame f m \<Longrightarrow> (\<And>x. Q x x) \<Longrightarrow> post f Q k \<Longrightarrow> post f Q (io_seq m k)"
  by (simp add: io_seq_def post_bind)

lemma post_if: "post f Q m \<Longrightarrow> post f Q k \<Longrightarrow> post f Q (if b then m else k)"
  by simp

lemma post_case_option:
  "post f Q m \<Longrightarrow> (\<And>a. post f Q (k a)) \<Longrightarrow> post f Q (case v of None \<Rightarrow> m | Some a \<Rightarrow> k a)"
  by (simp split: option.splits)

lemma post_case_prod: "(\<And>a b. post f Q (k a b)) \<Longrightarrow> post f Q (case v of (a, b) \<Rightarrow> k a b)"
  by (simp split: prod.splits)

lemma once_locked_refl: "once_locked x x"
  by (simp add: once_locked_def)

lemma post_lk_processAudioFile:
  "post lk once_locked (processAudioFile w filePath caption userId username chatId)"
proof (cases "TRANSCRIPTION_AVAILABLE w")
  case False
  have "frame lk (processAudioFile w filePath caption userId username chatId)"
    using False unfolding processAudioFile_def by (auto intro!: frame_intros frame_lk_prims)
  then show ?thesis by (rule post_frame) (rule once_locked_refl)
next
  case True
  have "frame lk (try_catch (audio_try w filePath caption userId username chatId) (audio_catch w))"
    by (intro frame_try_catch frame_lk_audio_try frame_lk_audio_catch)
  then have "lk (snd (io_seq startProcessing (io_seq startTypingIndicator
               (try_finally
                  (try_catch (audio_try w filePath caption userId username chatId) (audio_catch w))
                  (audio_finally w filePath))) s))
             = lk s @ [StartProcessing, StopProcessing]" for s
    by (rule locked_region) (rule lk_audio_finally)
  then show ?thesis
    using True by (simp add: post_def processAudioFile_def once_locked_def)
qed

lemma frame_lk_downloadAudio: "frame lk (downloadAudio w c audio)"
  unfolding downloadAudio_def Let_def by (intro frame_intros frame_lk_prims)

lemma post_lk_handleAudio: "post lk once_locked (handleAudio w c)"
  unfolding handleAudio_def Let_def
  by (intro post_if post_case_prod post_case_option post_bind post_seq
        post_frame [OF frame_return] post_frame [OF frame_throw] post_lk_processAudioFile
        frame_lk_prims frame_intros frame_lk_downloadAudio once_locked_refl post_frame)

lemma post_locked_region:
  assumes "frame lk body" and "\<And>s. lk (snd (fin s)) = lk s @ [StopProcessing]"
  shows "post lk once_locked
           (io_seq startProcessing (io_seq startTypingIndicator (try_finally body fin)))"
  using locked_region [OF assms] by (simp add: post_def once_locked_def)

lemma frame_lk_video_try: "frame lk (video_try w statusMsg videoPath caption userId username chatId)"
  unfolding video_try_def by (intro frame_intros frame_lk_prims)

lemma frame_lk_video_catch: "frame lk (video_catch w statusMsg error)"
  unfolding video_catch_def by (intro frame_intros frame_lk_prims)

lemma lk_video_finally: "lk (snd (video_finally s)) = lk s @ [StopProcessing]"
  by (simp add: video_finally_def lk_def lock_events_def prim_defs io_defs)

lemma frame_lk_downloadVideo: "frame lk (downloadVideo w c)"
  unfolding downloadVideo_def Let_def by (intro frame_intros frame_lk_prims)

lemma post_lk_video_process:
  "post lk once_locked (video_process w statusMsg videoPath caption userId username chatId)"
  unfolding video_process_def
  by (intro post_locked_region lk_video_finally frame_try_catch frame_lk_video_try
        frame_lk_video_catch)

lemma post_lk_handleVideo: "post lk once_locked (handleVideo w c)"
  unfolding handleVideo_def Let_def
  by (intro post_lk_video_process
        post_if post_case_prod post_case_option post_bind post_seq
        post_frame [OF frame_return] post_frame [OF frame_throw]
        frame_lk_prims frame_intros frame_lk_downloadVideo once_locked_refl)

lemma once_titled_refl: "once_titled x x"
  by (simp add: once_titled_def)

lemma post_tw_setTitleIfNew: "post tw once_titled (setTitleIfNew title)"
  by (simp add: post_def tw_def once_titled_def title_writes_append prim_defs io_defs)

lemma post_then_frame:
  assumes "post f Q m" and "\<And>a. frame f (k a)"
  shows "post f Q (io_bind m k)"
  unfolding post_def
proof
  fix s
  obtain r s1 where ms: "m s = (r, s1)" by (cases "m s")
  have q: "Q (f s) (f s1)" using assms(1) ms by (metis post_def snd_conv)
  show "Q (f s) (f (snd (io_bind m k s)))"
  proof (cases r)
    case (Inl e)
    then show ?thesis using ms q by (simp add: io_bind_def)
  next
    case (Inr a)
    have "f (snd (k a s1)) = f s1" using assms(2) by (simp add: frame_def)
    then show ?thesis using ms q Inr by (simp add: io_bind_def)
  qed
qed

lemma post_try_catch_handler_frame:
  assumes "post f Q m" and "\<And>e. frame f (h e)"
  shows "post f Q (try_catch m h)"
  unfolding post_def
proof
  fix s
  obtain r s1 where ms: "m s = (r, s1)" by (cases "m s")
  have q: "Q (f s) (f s1)" using assms(1) ms by (metis post_def snd_conv)
  show "Q (f s) (f (snd (try_catch m h s)))"
  proof (cases r)
    case (Inr a)
    then show ?thesis using ms q by (simp add: try_catch_def)
  next
    case (Inl e)
    have "f (snd (h e s1)) = f s1" using assms(2) by (simp add: frame_def)
    then show ?thesis using ms q Inl by (simp add: try_catch_def)
  qed
qed

lemma post_try_finally:
  assumes "post f Q m" and "frame f fin"
  shows "post f Q (try_finally m fin)"
  using assms by (simp add: post_def frame_def snd_try_finally)

lemma post_tw_title_then:
  "frame tw k \<Longrightarrow> post tw once_titled (io_seq (setTitleIfNew title) k)"
  unfolding io_seq_def by (rule post_then_frame [OF post_tw_setTitleIfNew])

lemma post_tw_audio_try:
  "post tw once_titled (audio_try w filePath caption userId username chatId)"
  unfolding audio_try_def
  by (intro post_tw_title_then post_if post_case_option post_bind post_seq
        post_frame [OF frame_return] frame_tw_prims frame_intros once_titled_refl post_frame)

lemma post_tw_processAudioFile:
  "post tw once_titled (processAudioFile w filePath caption userId username chatId)"
  unfolding processAudioFile_def
  by (intro post_if post_seq post_try_finally post_try_catch_handler_frame post_tw_audio_try
        frame_tw_audio_catch frame_tw_audio_finally frame_tw_prims frame_intros
        once_titled_refl post_frame)

lemma frame_tw_downloadAudio: "frame tw (downloadAudio w c audio)"
  unfolding downloadAudio_def Let_def by (intro frame_intros frame_tw_prims)

lemma post_tw_handleAudio: "post tw once_titled (handleAudio w c)"
  unfolding handleAudio_def Let_def
  by (intro post_if post_case_prod post_case_option post_bind post_seq
        post_frame [OF frame_return] post_frame [OF frame_throw] post_tw_processAudioFile
        frame_tw_prims frame_intros frame_tw_downloadAudio once_titled_refl post_frame)

lemma post_tw_video_try:
  "post tw once_titled (video_try w statusMsg videoPath caption userId username chatId)"
  unfolding video_try_def
  by (intro post_tw_title_then post_if post_case_option post_bind post_seq
        post_frame [OF frame_return] frame_tw_prims frame_intros once_titled_refl post_frame)

lemma frame_tw_video_catch: "frame tw (video_catch w statusMsg error)"
  unfolding video_catch_def by (intro frame_intros frame_tw_prims)

lemma frame_tw_video_finally: "frame tw video_finally"
  unfolding video_finally_def by (intro frame_intros frame_tw_prims)

lemma frame_tw_downloadVideo: "frame tw (downloadVideo w c)"
  unfolding downloadVideo_def Let_def by (intro frame_intros frame_tw_prims)

lemma post_tw_video_process:
  "post tw once_titled (video_process w statusMsg videoPath caption userId username chatId)"
  unfolding video_process_def
  by (intro post_seq post_try_finally post_try_catch_handler_frame post_tw_video_try
        frame_tw_prims frame_tw_video_catch frame_tw_video_finally once_titled_refl)

lemma post_tw_handleVideo: "post tw once_titled (handleVideo w c)"
  unfolding handleVideo_def Let_def
  by (intro post_tw_video_process
        post_if post_case_prod post_case_option post_bind post_seq
        post_frame [OF frame_return] post_frame [OF frame_throw]
        frame_tw_prims frame_intros frame_tw_downloadVideo once_titled_refl)

section \<open>Gates before the pipeline\<close>

text \<open>
  Claim C6. A user who is not on the allow list gets exactly one reply, the fixed denial,
  from the audio handler and from the video handler alike, and nothing else happens: the
  trace gains that one event, so there is no rate-limit check, no download and no audit
  record. The event is one that carries a user, a chat and the media, as the first guard
  of both handlers requires.
\<close>

theorem C6_unauthorized_denied:
  assumes "from_id c = Some userId" and "userId \<noteq> 0"
    and "chat_id c = Some chatId" and "chatId \<noteq> 0"
    and "\<not> isAuthorized userId (ALLOWED_USERS w)"
  shows "(msg_audio c \<noteq> None \<longrightarrow>
            snd (handleAudio w c s) = s\<lparr>trace := trace s @ [Reply MSG_UNAUTHORIZED]\<rparr>)
       \<and> (video_of c \<noteq> None \<longrightarrow>
            snd (handleVideo w c s) = s\<lparr>trace := trace s @ [Reply MSG_UNAUTHORIZED]\<rparr>)"
  using assms
  by (auto simp: handleAudio_def handleVideo_def truthy_int_def isAuthorized_def io_defs prim_defs
      split: sum.splits)

theorem C6_unauthorized_denied_witness:
  "snd (handleAudio world_ok (ctx_audio\<lparr>from_id := Some 666\<rparr>) (init False False))
     = (init False False)\<lparr>trace := [Reply MSG_UNAUTHORIZED]\<rparr>
   \<and> snd (handleVideo world_ok (ctx_video\<lparr>from_id := Some 666\<rparr>) (init False False))
     = (init False False)\<lparr>trace := [Reply MSG_UNAUTHORIZED]\<rparr>"
  using C6_unauthorized_denied
          [of "ctx_audio\<lparr>from_id := Some 666\<rparr>" 666 100 world_ok "init False False"]
        C6_unauthorized_denied
          [of "ctx_video\<lparr>from_id := Some 666\<rparr>" 666 100 world_ok "init False False"]
  by (simp add: ctx_audio_def ctx_video_def world_ok_def init_def video_of_def isAuthorized_def)

text \<open>
  Claim C4. A video whose declared size is above 50 MiB is answered at once with the
  size-exceeded text, which reads "Maximum size is 50MB", and the handler returns: the
  trace gains that one reply, so there is no rate-limit check, no download and no lock.
  The size check comes after authorization: the same video from a user who is not on the
  allow list gets the denial instead. It comes before the rate-limit check: the result
  holds whatever the rate limiter would have said.
\<close>

theorem C4_oversize_video_rejected:
  assumes "from_id c = Some userId" and "userId \<noteq> 0"
    and "chat_id c = Some chatId" and "chatId \<noteq> 0"
    and "video_of c = Some video" and "video_file_size video = Some n"
    and "n > 50 * 1024 * 1024"
  shows "(isAuthorized userId (ALLOWED_USERS w) \<longrightarrow>
            snd (handleVideo w c s) = s\<lparr>trace := trace s @ [Reply MSG_VIDEO_TOO_LARGE]\<rparr>)
       \<and> (\<not> isAuthorized userId (ALLOWED_USERS w) \<longrightarrow>
            snd (handleVideo w c s) = s\<lparr>trace := trace s @ [Reply MSG_UNAUTHORIZED]\<rparr>)
       \<and> MSG_VIDEO_TOO_LARGE = [0x274C] @ js '' Video too large. Maximum size is 50MB.''"
  using assms
  by (auto simp: handleVideo_def truthy_int_def isAuthorized_def size_exceeded_def
        MAX_VIDEO_SIZE_def MSG_VIDEO_TOO_LARGE_def decimal.simps digit_def js_def io_defs prim_defs
      split: sum.splits)

theorem C4_oversize_video_rejected_witness:
  "snd (handleVideo (world_ok\<lparr>rateLimiter_check := \<lambda>_. (False, None)\<rparr>) ctx_video
          (init False False))
     = (init False False)\<lparr>trace := [Reply MSG_VIDEO_TOO_LARGE]\<rparr>
   \<and> snd (handleVideo world_ok (ctx_video\<lparr>from_id := Some 666\<rparr>) (init False False))
     = (init False False)\<lparr>trace := [Reply MSG_UNAUTHORIZED]\<rparr>"
  using C4_oversize_video_rejected
          [of ctx_video 42 100 "\<lparr>video_file_size = Some 62914560\<rparr>" 62914560
              "world_ok\<lparr>rateLimiter_check := \<lambda>_. (False, None)\<rparr>" "init False False"]
        C4_oversize_video_rejected
          [of "ctx_video\<lparr>from_id := Some 666\<rparr>" 666 100
              "\<lparr>video_file_size = Some 62914560\<rparr>" 62914560 world_ok "init False False"]
  by (simp add: ctx_video_def world_ok_def init_def video_of_def isAuthorized_def)

section \<open>The configuration gate\<close>

text \<open>
  Claim C2, as amended. When \<open>TRANSCRIPTION_AVAILABLE\<close> is false, \<open>processAudioFile\<close>
  replies with the fixed configuration-error text and returns: the lock is not acquired
  and nothing else is called. The check is the first statement of \<open>processAudioFile\<close>,
  which \<open>handleAudio\<close> calls after its download step: for an allowed, admitted user whose
  download succeeds, the file has been fetched and written before the reply.
\<close>

theorem C2_unavailable_reply:
  assumes "\<not> TRANSCRIPTION_AVAILABLE w"
    and "from_id c = Some userId" and "userId \<noteq> 0"
    and "chat_id c = Some chatId" and "chatId \<noteq> 0"
    and "msg_audio c = Some audio"
    and "isAuthorized userId (ALLOWED_USERS w)"
    and "rateLimiter_check w userId = (True, retryAfter)"
    and "getFile_result w = Inr file_path"
    and "fetch_result w (file_url (api_token c) file_path) = Inr buffer"
    and "write_result w
           (audio_path (TEMP_DIR w) (date_now w) (audio_ext (audio_file_name audio))) = Inr ()"
  shows "snd (handleAudio w c s)
           = s\<lparr>trace := trace s @
                 [RateLimiterCheck userId, GetFile,
                  Fetch (file_url (api_token c) file_path),
                  BunWrite (audio_path (TEMP_DIR w) (date_now w)
                              (audio_ext (audio_file_name audio))) buffer,
                  Reply MSG_NOT_CONFIGURED]\<rparr>
       \<and> snd (processAudioFile w filePath caption userId username chatId s)
           = s\<lparr>trace := trace s @ [Reply MSG_NOT_CONFIGURED]\<rparr>"
  using assms
  by (auto simp: handleAudio_def downloadAudio_def processAudioFile_def truthy_int_def
        isAuthorized_def Let_def io_defs prim_defs split: sum.splits)

theorem C2_unavailable_reply_witness:
  "snd (handleAudio (world_ok\<lparr>TRANSCRIPTION_AVAILABLE := False\<rparr>) ctx_audio (init False False))
     = (init False False)\<lparr>trace :=
         [RateLimiterCheck 42, GetFile,
          Fetch (file_url (js ''TOKEN'') (js ''music/file_1.mp3'')),
          BunWrite (audio_path (js ''/tmp/bot'') 1700000000000
                      (audio_ext (Some (js ''Song.MP3'')))) [1, 2, 3],
          Reply MSG_NOT_CONFIGURED]\<rparr>
   \<and> snd (processAudioFile (world_ok\<lparr>TRANSCRIPTION_AVAILABLE := False\<rparr>)
            (js ''/tmp/bot/audio_1.mp3'') None 42 (js ''alice'') 100 (init False False))
     = (init False False)\<lparr>trace := [Reply MSG_NOT_CONFIGURED]\<rparr>"
  using C2_unavailable_reply
          [of "world_ok\<lparr>TRANSCRIPTION_AVAILABLE := False\<rparr>" ctx_audio 42 100
              "\<lparr>audio_file_name = Some (js ''Song.MP3'')\<rparr>" None "js ''music/file_1.mp3''"
              "[1, 2, 3]" "init False False" "js ''/tmp/bot/audio_1.mp3''" None "js ''alice''"]
  by (simp add: world_ok_def ctx_audio_def init_def isAuthorized_def)

text \<open>
  The claim as stated puts the reply before any download. On a sample event the trace
  shows the three download calls first.
\<close>

theorem C2_download_first_counterexample:
  "trace (snd (handleAudio (world_ok\<lparr>TRANSCRIPTION_AVAILABLE := False\<rparr>) ctx_audio
                 (init False False)))
     = [RateLimiterCheck 42, GetFile,
        Fetch (file_url (js ''TOKEN'') (js ''music/file_1.mp3'')),
        BunWrite (audio_path (js ''/tmp/bot'') 1700000000000 (js ''MP3'')) [1, 2, 3],
        Reply MSG_NOT_CONFIGURED]"
  by (simp add: world_ok_def ctx_audio_def init_def handleAudio_def downloadAudio_def
        processAudioFile_def truthy_int_def isAuthorized_def or_else_def audio_ext_def
        pop_def split_js_def js_def Let_def io_defs prim_defs)

section \<open>Transcription failure\<close>

lemma audio_try_failed:
  assumes "reply_result w MSG_TRANSCRIBING = Inr m"
    and "transcribe_result w filePath = Inr t" and "\<not> truthy_str t"
  shows "audio_try w filePath caption userId username chatId s
           = (edit_result w MSG_TRANSCRIPTION_FAILED,
              s\<lparr>trace := trace s @ [Reply MSG_TRANSCRIBING, TranscribeVoice filePath,
                    EditMessageText chatId (message_id m) MSG_TRANSCRIPTION_FAILED]\<rparr>)"
  using assms by (simp add: audio_try_def io_defs prim_defs)

lemma audio_try_transcribed:
  assumes "reply_result w MSG_TRANSCRIBING = Inr m"
    and "transcribe_result w filePath = Inr (Some t)" and "t \<noteq> []"
    and "edit_result w (transcript_text t) = Inr ()"
  shows "audio_try w filePath caption userId username chatId s
           = io_bind (sendMessageStreaming w (audio_prompt t caption) username userId chatId)
               (\<lambda>claudeResponse. auditLog w userId username (js ''AUDIO'') t claudeResponse)
               (s\<lparr>trace := trace s @ [Reply MSG_TRANSCRIBING, TranscribeVoice filePath,
                     EditMessageText chatId (message_id m) (transcript_text t)]
                     @ (if isActive s then [] else [SetConversationTitle (audio_title t)])\<rparr>)"
  using assms by (simp add: audio_try_def truthy_str_def io_defs prim_defs split: sum.splits)

text \<open>
  Claim C1, as amended. When the transcription call returns no text (\<open>undefined\<close> or the
  empty string), the handler edits the status message to the fixed failure marker and
  returns. The processing lock was acquired before the status reply and the
  transcription call; cleanup releases it once, stops the typing indicator and deletes
  the scratch file. The status reply and the status edit are taken to succeed.
\<close>

theorem C1_transcription_failure:
  assumes "TRANSCRIPTION_AVAILABLE w"
    and "reply_result w MSG_TRANSCRIBING = Inr m"
    and "transcribe_result w filePath = Inr t" and "\<not> truthy_str t"
    and "edit_result w MSG_TRANSCRIPTION_FAILED = Inr ()"
  shows "processAudioFile w filePath caption userId username chatId s
           = (Inr (),
              s\<lparr>trace := trace s @
                   [StartProcessing, StartTypingIndicator,
                    Reply MSG_TRANSCRIBING, TranscribeVoice filePath,
                    EditMessageText chatId (message_id m) MSG_TRANSCRIPTION_FAILED,
                    StopProcessing, TypingStop, UnlinkSync filePath]\<rparr>)"
  using assms
  by (simp add: processAudioFile_def audio_try_failed audio_finally_def
        io_seq_def io_bind_def try_finally_def try_catch_def io_return_def call_def
        startProcessing_def startTypingIndicator_def stopProcessing_def typingStop_def
        unlinkSync_def split: sum.splits)

theorem C1_transcription_failure_witness:
  "processAudioFile (world_ok\<lparr>transcribe_result := \<lambda>_. Inr None\<rparr>) (js ''/tmp/bot/audio_1.mp3'')
      None 42 (js ''alice'') 100 (init False False)
     = (Inr (),
        (init False False)\<lparr>trace :=
           [StartProcessing, StartTypingIndicator,
            Reply MSG_TRANSCRIBING, TranscribeVoice (js ''/tmp/bot/audio_1.mp3''),
            EditMessageText 100 7 MSG_TRANSCRIPTION_FAILED,
            StopProcessing, TypingStop, UnlinkSync (js ''/tmp/bot/audio_1.mp3'')]\<rparr>)"
  using C1_transcription_failure
          [of "world_ok\<lparr>transcribe_result := \<lambda>_. Inr None\<rparr>"
              "\<lparr>message_id = 7, message_chat_id = 100\<rparr>" "js ''/tmp/bot/audio_1.mp3''" None
              None 42 "js ''alice''" 100 "init False False"]
  by (simp add: world_ok_def init_def truthy_str_def)

text \<open>
  The claim as stated has the lock never acquired. On a sample invocation whose
  transcription returns \<open>undefined\<close> the trace contains the acquisition.
\<close>

theorem C1_lock_acquired_counterexample:
  "transcribe_result (world_ok\<lparr>transcribe_result := \<lambda>_. Inr None\<rparr>) (js ''/tmp/bot/audio_1.mp3'')
     = Inr None
   \<and> StartProcessing \<in> set (trace (snd
         (processAudioFile (world_ok\<lparr>transcribe_result := \<lambda>_. Inr None\<rparr>)
            (js ''/tmp/bot/audio_1.mp3'') None 42 (js ''alice'') 100 (init False False))))"
  by (simp add: world_ok_def init_def truthy_str_def processAudioFile_def audio_try_def
        audio_finally_def io_defs prim_defs)

section \<open>Acquire and release\<close>

text \<open>
  Claim C3. In every invocation of \<open>handleAudio\<close>, \<open>handleVideo\<close> and
  \<open>processAudioFile\<close>, whatever each collaborator does (return or throw, the streaming
  call included), the lock events that the invocation adds to the trace are either none,
  or one acquisition followed by one release: an invocation that acquires the lock
  invokes the release callback exactly once.
\<close>

theorem C3_release_exactly_once:
  "(lock_events (trace (snd (handleAudio w c s))) = lock_events (trace s)
      \<or> lock_events (trace (snd (handleAudio w c s)))
          = lock_events (trace s) @ [StartProcessing, StopProcessing])
   \<and> (lock_events (trace (snd (handleVideo w c s))) = lock_events (trace s)
      \<or> lock_events (trace (snd (handleVideo w c s)))
          = lock_events (trace s) @ [StartProcessing, StopProcessing])
   \<and> (lock_events (trace (snd (processAudioFile w filePath caption userId username chatId s)))
          = lock_events (trace s)
      \<or> lock_events (trace (snd (processAudioFile w filePath caption userId username chatId s)))
          = lock_events (trace s) @ [StartProcessing, StopProcessing])"
  using post_lk_handleAudio [of w c] post_lk_handleVideo [of w c]
    post_lk_processAudioFile [of w filePath caption userId username chatId]
  by (simp add: post_def once_locked_def lk_def)

theorem C3_release_exactly_once_witness:
  "lock_events (trace (snd
     (handleAudio (world_ok\<lparr>stream_result := \<lambda>_. Inl (js ''Error: connection reset'')\<rparr>)
        ctx_audio (init False False))))
     = [StartProcessing, StopProcessing]
   \<and> lock_events (trace (snd
     (handleVideo (world_ok\<lparr>stream_result := \<lambda>_. Inl (js ''Error: connection reset'')\<rparr>)
        (ctx_video\<lparr>msg_video := Some \<lparr>video_file_size = Some 1024\<rparr>\<rparr>) (init False False))))
     = [StartProcessing, StopProcessing]"
  using C3_release_exactly_once
          [where w = "world_ok\<lparr>stream_result := \<lambda>_. Inl (js ''Error: connection reset'')\<rparr>"
             and c = ctx_audio and s = "init False False"]
        C3_release_exactly_once
          [where w = "world_ok\<lparr>stream_result := \<lambda>_. Inl (js ''Error: connection reset'')\<rparr>"
             and c = "ctx_video\<lparr>msg_video := Some \<lparr>video_file_size = Some 1024\<rparr>\<rparr>"
             and s = "init False False"]
  by (simp add: world_ok_def ctx_audio_def ctx_video_def init_def lock_events_def
        handleAudio_def downloadAudio_def processAudioFile_def audio_try_def audio_catch_def
        audio_finally_def handleVideo_def downloadVideo_def video_try_def video_catch_def
        video_finally_def video_process_def video_of_def size_exceeded_def MAX_VIDEO_SIZE_def
        truthy_int_def truthy_str_def isAuthorized_def or_else_def Let_def js_def
        io_defs prim_defs)

section \<open>The trace only grows\<close>

lemma grows_return: "post trace prefix (io_return a)"
  by (simp add: post_def io_return_def)

lemma grows_throw: "post trace prefix (io_throw e)"
  by (simp add: post_def io_throw_def)

lemma grows_bind:
  assumes "post trace prefix m" and "\<And>a. post trace prefix (k a)"
  shows "post trace prefix (io_bind m k)"
  unfolding post_def
proof
  fix s
  obtain r s1 where ms: "m s = (r, s1)" by (cases "m s")
  have p1: "prefix (trace s) (trace s1)" using assms(1) ms by (metis post_def snd_conv)
  show "prefix (trace s) (trace (snd (io_bind m k s)))"
  proof (cases r)
    case (Inl e)
    then show ?thesis using ms p1 by (simp add: io_bind_def)
  next
    case (Inr a)
    have "prefix (trace s1) (trace (snd (k a s1)))" using assms(2) by (simp add: post_def)
    then show ?thesis using ms p1 Inr by (simp add: io_bind_def)
  qed
qed

lemma grows_seq: "post trace prefix m \<Longrightarrow> post trace prefix k \<Longrightarrow> post trace prefix (io_seq m k)"
  by (simp add: io_seq_def grows_bind)

lemma grows_try_catch:
  assumes "post trace prefix m" and "\<And>e. post trace prefix (h e)"
  shows "post trace prefix (try_catch m h)"
  unfolding post_def
proof
  fix s
  obtain r s1 where ms: "m s = (r, s1)" by (cases "m s")
  have p1: "prefix (trace s) (trace s1)" using assms(1) ms by (metis post_def snd_conv)
  show "prefix (trace s) (trace (snd (try_catch m h s)))"
  proof (cases r)
    case (Inr a)
    then show ?thesis using ms p1 by (simp add: try_catch_def)
  next
    case (Inl e)
    have "prefix (trace s1) (trace (snd (h e s1)))" using assms(2) by (simp add: post_def)
    then show ?thesis using ms p1 Inl by (simp add: try_catch_def)
  qed
qed

lemma grows_try_finally:
  assumes "post trace prefix m" and "post trace prefix fin"
  shows "post trace prefix (try_finally m fin)"
  unfolding post_def
proof
  fix s
  have "prefix (trace s) (trace (snd (m s)))" using assms(1) by (simp add: post_def)
  moreover have "prefix (trace (snd (m s))) (trace (snd (fin (snd (m s)))))"
    using assms(2) by (simp add: post_def)
  ultimately show "prefix (trace s) (trace (snd (try_finally m fin s)))"
    by (simp add: snd_try_finally)
qed

lemma grows_prims:
  "post trace prefix (reply w text)"
  "post trace prefix (editMessageText w chatId msgId text)"
  "post trace prefix (deleteMessage w chatId msgId)"
  "post trace prefix (getFile w)"
  "post trace prefix (fetch w url)"
  "post trace prefix (bunWrite w path buffer)"
  "post trace prefix (unlinkSync w path)"
  "post trace prefix (rateLimiterCheck w userId)"
  "post trace prefix (auditLogRateLimit w userId username retryAfter)"
  "post trace prefix (auditLog w userId username kind input output)"
  "post trace prefix (transcribeVoice w filePath)"
  "post trace prefix (handleProcessingError w error)"
  "post trace prefix startProcessing"
  "post trace prefix stopProcessing"
  "post trace prefix startTypingIndicator"
  "post trace prefix typingStop"
  "post trace prefix (sendMessageStreaming w prompt username userId chatId)"
  "post trace prefix (setTitleIfNew title)"
  "post trace prefix consumeInterruptFlag"
  by (simp_all add: post_def prim_defs io_defs)

lemmas grows_intros = grows_return grows_throw grows_bind grows_seq grows_try_catch
  grows_try_finally grows_prims post_if post_case_option post_case_prod

lemma grows_video_process:
  "post trace prefix (video_process w statusMsg videoPath caption userId username chatId)"
  unfolding video_process_def video_try_def video_catch_def video_finally_def
  by (intro grows_intros)

lemma grows_downloadVideo: "post trace prefix (downloadVideo w c)"
  unfolding downloadVideo_def Let_def by (intro grows_intros)

lemma prefix_after_call:
  assumes "\<And>a. post trace prefix (k a)"
  shows "prefix (trace s @ [e]) (trace (snd (io_bind (call e r) k s)))"
proof (cases r)
  case (Inl x)
  then show ?thesis by (simp add: io_bind_def call_def)
next
  case (Inr a)
  have "prefix (trace (s\<lparr>trace := trace s @ [e]\<rparr>))
          (trace (snd (k a (s\<lparr>trace := trace s @ [e]\<rparr>))))"
    using assms unfolding post_def by blast
  then show ?thesis using Inr by (simp add: io_bind_def call_def)
qed

lemma prefix_after_seq_call:
  "post trace prefix k \<Longrightarrow> prefix (trace s @ [e]) (trace (snd (io_seq (call e r) k s)))"
  unfolding io_seq_def by (rule prefix_after_call)

lemma trace_init: "trace (init active flag) = []"
  by (simp add: init_def)

section \<open>A video without a declared size\<close>

text \<open>
  Claim C10. When the declared size of a video is absent or zero, the size gate does not
  fire: for an allowed user the first call of the handler is the rate-limit check. When
  the limiter admits the user and the transport calls succeed, the file is fetched and
  written and processing starts, whatever the fetched bytes are: nothing in the handler
  looks at their length.
\<close>

theorem C10_undeclared_size_proceeds:
  assumes "from_id c = Some userId" and "userId \<noteq> 0"
    and "chat_id c = Some chatId" and "chatId \<noteq> 0"
    and "video_of c = Some video"
    and "video_file_size video = None \<or> video_file_size video = Some 0"
    and "isAuthorized userId (ALLOWED_USERS w)"
  shows "prefix [RateLimiterCheck userId] (trace (snd (handleVideo w c (init active flag))))
       \<and> (rateLimiter_check w userId = (True, retryAfter)
            \<and> reply_result w MSG_DOWNLOADING_VIDEO = Inr m
            \<and> getFile_result w = Inr file_path
            \<and> fetch_result w (file_url (api_token c) file_path) = Inr buffer
            \<and> write_result w (video_path (TEMP_DIR w) (date_now w) (js ''mp4'')) = Inr ()
          \<longrightarrow> prefix [RateLimiterCheck userId, Reply MSG_DOWNLOADING_VIDEO, GetFile,
                      Fetch (file_url (api_token c) file_path),
                      BunWrite (video_path (TEMP_DIR w) (date_now w) (js ''mp4'')) buffer,
                      StartProcessing]
                 (trace (snd (handleVideo w c (init active flag)))))"
proof
  have guards: "\<not> size_exceeded video"
    using assms(6) by (auto simp: size_exceeded_def)
  have "prefix (trace (init active flag) @ [RateLimiterCheck userId])
          (trace (snd (handleVideo w c (init active flag))))"
    using assms guards
    apply (simp add: handleVideo_def truthy_int_def isAuthorized_def Let_def rateLimiterCheck_def)
    apply (rule prefix_after_call)
    apply (intro grows_intros grows_video_process grows_downloadVideo)
    done
  then show "prefix [RateLimiterCheck userId] (trace (snd (handleVideo w c (init active flag))))"
    by (simp add: trace_init)
next
  show "rateLimiter_check w userId = (True, retryAfter)
            \<and> reply_result w MSG_DOWNLOADING_VIDEO = Inr m
            \<and> getFile_result w = Inr file_path
            \<and> fetch_result w (file_url (api_token c) file_path) = Inr buffer
            \<and> write_result w (video_path (TEMP_DIR w) (date_now w) (js ''mp4'')) = Inr ()
          \<longrightarrow> prefix [RateLimiterCheck userId, Reply MSG_DOWNLOADING_VIDEO, GetFile,
                      Fetch (file_url (api_token c) file_path),
                      BunWrite (video_path (TEMP_DIR w) (date_now w) (js ''mp4'')) buffer,
                      StartProcessing]
                 (trace (snd (handleVideo w c (init active flag))))"
  proof
    assume ok: "rateLimiter_check w userId = (True, retryAfter)
            \<and> reply_result w MSG_DOWNLOADING_VIDEO = Inr m
            \<and> getFile_result w = Inr file_path
            \<and> fetch_result w (file_url (api_token c) file_path) = Inr buffer
            \<and> write_result w (video_path (TEMP_DIR w) (date_now w) (js ''mp4'')) = Inr ()"
    let ?p = "video_path (TEMP_DIR w) (date_now w) (js ''mp4'')"
    let ?s5 = "(init active flag)\<lparr>trace :=
                 [RateLimiterCheck userId, Reply MSG_DOWNLOADING_VIDEO, GetFile,
                  Fetch (file_url (api_token c) file_path), BunWrite ?p buffer]\<rparr>"
    have guards: "\<not> size_exceeded video"
      using assms(6) by (auto simp: size_exceeded_def)
    have run: "handleVideo w c (init active flag)
                 = video_process w m ?p (msg_caption c) userId
                     (or_else (from_username c) (js ''unknown'')) chatId ?s5"
      using assms guards ok
      by (simp add: handleVideo_def downloadVideo_def video_extension_def truthy_int_def
            isAuthorized_def Let_def trace_init io_defs reply_def getFile_def fetch_def
            bunWrite_def rateLimiterCheck_def)
    have "prefix (trace ?s5 @ [StartProcessing])
            (trace (snd (video_process w m ?p (msg_caption c) userId
                           (or_else (from_username c) (js ''unknown'')) chatId ?s5)))"
      unfolding video_process_def startProcessing_def video_try_def video_catch_def
        video_finally_def
      by (rule prefix_after_seq_call) (intro grows_intros)
    then show "prefix [RateLimiterCheck userId, Reply MSG_DOWNLOADING_VIDEO, GetFile,
                      Fetch (file_url (api_token c) file_path),
                      BunWrite (video_path (TEMP_DIR w) (date_now w) (js ''mp4'')) buffer,
                      StartProcessing]
                 (trace (snd (handleVideo w c (init active flag))))"
      by (simp add: run)
  qed
qed

theorem C10_undeclared_size_proceeds_witness:
  "prefix [RateLimiterCheck 42]
     (trace (snd (handleVideo (world_ok\<lparr>fetch_result := \<lambda>_. Inr (replicate 62914560 0)\<rparr>)
                    (ctx_video\<lparr>msg_video := Some \<lparr>video_file_size = None\<rparr>\<rparr>)
                    (init False False))))
   \<and> prefix [RateLimiterCheck 42, Reply MSG_DOWNLOADING_VIDEO, GetFile,
             Fetch (file_url (js ''TOKEN'') (js ''music/file_1.mp3'')),
             BunWrite (video_path (js ''/tmp/bot'') 1700000000000 (js ''mp4''))
               (replicate 62914560 0),
             StartProcessing]
     (trace (snd (handleVideo (world_ok\<lparr>fetch_result := \<lambda>_. Inr (replicate 62914560 0)\<rparr>)
                    (ctx_video\<lparr>msg_video := Some \<lparr>video_file_size = None\<rparr>\<rparr>)
                    (init False False))))"
  using C10_undeclared_size_proceeds
          [where c = "ctx_video\<lparr>msg_video := Some \<lparr>video_file_size = None\<rparr>\<rparr>"
             and userId = 42 and chatId = 100 and video = "\<lparr>video_file_size = None\<rparr>"
             and w = "world_ok\<lparr>fetch_result := \<lambda>_. Inr (replicate 62914560 0)\<rparr>"
             and retryAfter = None and m = "\<lparr>message_id = 7, message_chat_id = 100\<rparr>"
             and file_path = "js ''music/file_1.mp3''" and buffer = "replicate 62914560 0"
             and active = False and flag = False]
  by (simp add: world_ok_def ctx_video_def video_of_def isAuthorized_def)

section \<open>Failures of the streaming call\<close>

text \<open>
  Claim C5. When the streaming call of the audio pipeline throws, the handler looks for
  "abort" or "cancel" in the text of the failure, as they are written. If one occurs,
  it consumes the interrupt flag, and replies with the fixed stopped notice exactly when
  the flag was not set. If none occurs, it replies once with the fixed prefix followed by
  the first 200 code units of the text. Cleanup follows in every case. The theorem gives
  the whole trace of such an invocation.
\<close>

theorem C5_streaming_failure:
  assumes "TRANSCRIPTION_AVAILABLE w"
    and "reply_result w MSG_TRANSCRIBING = Inr m"
    and "transcribe_result w filePath = Inr (Some t)" and "t \<noteq> []"
    and "edit_result w (transcript_text t) = Inr ()"
    and "stream_result w (audio_prompt t caption) = Inl err"
  shows "trace (snd (processAudioFile w filePath caption userId username chatId s))
           = trace s @
             [StartProcessing, StartTypingIndicator,
              Reply MSG_TRANSCRIBING, TranscribeVoice filePath,
              EditMessageText chatId (message_id m) (transcript_text t)]
             @ (if isActive s then [] else [SetConversationTitle (audio_title t)])
             @ [SendMessageStreaming (audio_prompt t caption) username userId chatId]
             @ (if str_includes err (js ''abort'') \<or> str_includes err (js ''cancel'')
                then (if interruptFlag s then [ConsumeInterruptFlag]
                      else [ConsumeInterruptFlag, Reply MSG_QUERY_STOPPED])
                else [Reply (ERROR_PREFIX @ take 200 err)])
             @ [StopProcessing, TypingStop, UnlinkSync filePath]"
  using assms
  by (simp add: processAudioFile_def audio_try_transcribed audio_finally_def audio_catch_def
        io_seq_def io_bind_def try_finally_def try_catch_def io_return_def call_def
        startProcessing_def startTypingIndicator_def stopProcessing_def typingStop_def
        unlinkSync_def sendMessageStreaming_def reply_def consumeInterruptFlag_def slice0_def
        split: sum.splits)

theorem C5_streaming_failure_witness:
  "trace (snd (processAudioFile
                 (world_ok\<lparr>stream_result := \<lambda>_. Inl (js ''Error: cancelled by user'')\<rparr>)
                 (js ''/tmp/bot/audio_1.mp3'') None 42 (js ''alice'') 100 (init True True)))
     = [StartProcessing, StartTypingIndicator, Reply MSG_TRANSCRIBING,
        TranscribeVoice (js ''/tmp/bot/audio_1.mp3''),
        EditMessageText 100 7 (transcript_text (js ''hello world'')),
        SendMessageStreaming (js ''hello world'') (js ''alice'') 42 100,
        ConsumeInterruptFlag,
        StopProcessing, TypingStop, UnlinkSync (js ''/tmp/bot/audio_1.mp3'')]
   \<and> trace (snd (processAudioFile
                 (world_ok\<lparr>stream_result := \<lambda>_. Inl (js ''Error: cancelled by user'')\<rparr>)
                 (js ''/tmp/bot/audio_1.mp3'') None 42 (js ''alice'') 100 (init True False)))
     = [StartProcessing, StartTypingIndicator, Reply MSG_TRANSCRIBING,
        TranscribeVoice (js ''/tmp/bot/audio_1.mp3''),
        EditMessageText 100 7 (transcript_text (js ''hello world'')),
        SendMessageStreaming (js ''hello world'') (js ''alice'') 42 100,
        ConsumeInterruptFlag, Reply MSG_QUERY_STOPPED,
        StopProcessing, TypingStop, UnlinkSync (js ''/tmp/bot/audio_1.mp3'')]
   \<and> trace (snd (processAudioFile
                 (world_ok\<lparr>stream_result := \<lambda>_. Inl (js ''Error: connection reset'')\<rparr>)
                 (js ''/tmp/bot/audio_1.mp3'') None 42 (js ''alice'') 100 (init True False)))
     = [StartProcessing, StartTypingIndicator, Reply MSG_TRANSCRIBING,
        TranscribeVoice (js ''/tmp/bot/audio_1.mp3''),
        EditMessageText 100 7 (transcript_text (js ''hello world'')),
        SendMessageStreaming (js ''hello world'') (js ''alice'') 42 100,
        Reply (ERROR_PREFIX @ js ''Error: connection reset''),
        StopProcessing, TypingStop, UnlinkSync (js ''/tmp/bot/audio_1.mp3'')]"
  using C5_streaming_failure
          [where w = "world_ok\<lparr>stream_result := \<lambda>_. Inl (js ''Error: cancelled by user'')\<rparr>"
             and m = "\<lparr>message_id = 7, message_chat_id = 100\<rparr>"
             and filePath = "js ''/tmp/bot/audio_1.mp3''" and t = "js ''hello world''"
             and caption = None and err = "js ''Error: cancelled by user''"
             and userId = 42 and username = "js ''alice''" and chatId = 100
             and s = "init True True"]
        C5_streaming_failure
          [where w = "world_ok\<lparr>stream_result := \<lambda>_. Inl (js ''Error: cancelled by user'')\<rparr>"
             and m = "\<lparr>message_id = 7, message_chat_id = 100\<rparr>"
             and filePath = "js ''/tmp/bot/audio_1.mp3''" and t = "js ''hello world''"
             and caption = None and err = "js ''Error: cancelled by user''"
             and userId = 42 and username = "js ''alice''" and chatId = 100
             and s = "init True False"]
        C5_streaming_failure
          [where w = "world_ok\<lparr>stream_result := \<lambda>_. Inl (js ''Error: connection reset'')\<rparr>"
             and m = "\<lparr>message_id = 7, message_chat_id = 100\<rparr>"
             and filePath = "js ''/tmp/bot/audio_1.mp3''" and t = "js ''hello world''"
             and caption = None and err = "js ''Error: connection reset''"
             and userId = 42 and username = "js ''alice''" and chatId = 100
             and s = "init True False"]
  by (simp add: world_ok_def init_def audio_prompt_def js_def)

section \<open>The prompt of the audio pipeline\<close>

lemma sent_prompts_append: "sent_prompts (xs @ ys) = sent_prompts xs @ sent_prompts ys"
  by (induction xs rule: sent_prompts.induct) simp_all

lemma frame_sp_prims:
  "frame sp (reply w text)"
  "frame sp (editMessageText w chatId msgId text)"
  "frame sp (deleteMessage w chatId msgId)"
  "frame sp (getFile w)"
  "frame sp (fetch w url)"
  "frame sp (bunWrite w path buffer)"
  "frame sp (unlinkSync w path)"
  "frame sp (rateLimiterCheck w userId)"
  "frame sp (auditLogRateLimit w userId username retryAfter)"
  "frame sp (auditLog w userId username kind input output)"
  "frame sp (transcribeVoice w filePath)"
  "frame sp (handleProcessingError w error)"
  "frame sp startProcessing"
  "frame sp stopProcessing"
  "frame sp startTypingIndicator"
  "frame sp typingStop"
  "frame sp (setTitleIfNew title)"
  "frame sp consumeInterruptFlag"
  by (simp_all add: frame_def sp_def sent_prompts_append prim_defs io_defs)

lemma frame_sp_audio_catch: "frame sp (audio_catch w error)"
  unfolding audio_catch_def by (intro frame_intros frame_sp_prims)

lemma frame_sp_audio_finally: "frame sp (audio_finally w filePath)"
  unfolding audio_finally_def by (intro frame_intros frame_sp_prims)

lemma frame_try_catch_handler:
  assumes "\<And>e. frame f (h e)"
  shows "f (snd (try_catch m h s)) = f (snd (m s))"
proof -
  obtain r s1 where ms: "m s = (r, s1)" by (cases "m s")
  show ?thesis
  proof (cases r)
    case (Inr a)
    then show ?thesis using ms by (simp add: try_catch_def)
  next
    case (Inl e)
    have "f (snd (h e s1)) = f s1" using assms by (simp add: frame_def)
    then show ?thesis using ms Inl by (simp add: try_catch_def)
  qed
qed

lemma frame_try_finally_fin:
  assumes "frame f fin"
  shows "f (snd (try_finally m fin s)) = f (snd (m s))"
  using assms by (simp add: frame_def snd_try_finally)

lemma sp_send_then:
  assumes "\<And>a. frame sp (k a)"
  shows "sp (snd (io_bind (sendMessageStreaming w prompt username userId chatId) k s))
           = sp s @ [prompt]"
proof (cases "stream_result w prompt")
  case (Inl e)
  then show ?thesis
    by (simp add: io_bind_def sendMessageStreaming_def call_def sp_def sent_prompts_append)
next
  case (Inr a)
  let ?s1 = "s\<lparr>trace := trace s @ [SendMessageStreaming prompt username userId chatId]\<rparr>"
  have "sp (snd (k a ?s1)) = sp ?s1" using assms by (simp add: frame_def)
  then show ?thesis using Inr
    by (simp add: io_bind_def sendMessageStreaming_def call_def sp_def sent_prompts_append)
qed

text \<open>
  Claim C7, as amended. After a successful transcription the audio pipeline sends exactly
  one prompt. Without a caption (absent or empty) it is the transcript itself. With a
  caption it is the whole transcript, then a blank line, three hyphens and a blank line,
  then the caption, with nothing between the separator and the caption: in Scenario B
  the prompt ends in the separator followed directly by "summarize".
\<close>

theorem C7_audio_prompt:
  assumes "TRANSCRIPTION_AVAILABLE w"
    and "reply_result w MSG_TRANSCRIBING = Inr m"
    and "transcribe_result w filePath = Inr (Some t)" and "t \<noteq> []"
    and "edit_result w (transcript_text t) = Inr ()"
  shows "sent_prompts (trace (snd (processAudioFile w filePath caption userId username chatId s)))
           = sent_prompts (trace s)
             @ [case caption of
                  None \<Rightarrow> t
                | Some c \<Rightarrow>
                    if c = [] then t
                    else t @ [0x0A, 0x0A, 0x2D, 0x2D, 0x2D, 0x0A, 0x0A] @ c]"
proof -
  let ?s2 = "s\<lparr>trace := trace s @ [StartProcessing, StartTypingIndicator]\<rparr>"
  let ?s3 = "?s2\<lparr>trace := trace ?s2 @ [Reply MSG_TRANSCRIBING, TranscribeVoice filePath,
                     EditMessageText chatId (message_id m) (transcript_text t)]
                     @ (if isActive ?s2 then [] else [SetConversationTitle (audio_title t)])\<rparr>"
  have run: "processAudioFile w filePath caption userId username chatId s
               = try_finally
                   (try_catch (audio_try w filePath caption userId username chatId) (audio_catch w))
                   (audio_finally w filePath) ?s2"
    using assms(1)
    by (simp add: processAudioFile_def io_seq_def io_bind_def call_def startProcessing_def
          startTypingIndicator_def)
  have "sp (snd (processAudioFile w filePath caption userId username chatId s))
          = sp (snd (audio_try w filePath caption userId username chatId ?s2))"
    by (simp add: run frame_try_finally_fin [OF frame_sp_audio_finally]
          frame_try_catch_handler [OF frame_sp_audio_catch])
  also have "\<dots> = sp ?s3 @ [audio_prompt t caption]"
    unfolding audio_try_transcribed [OF assms(2-5)]
    by (rule sp_send_then) (rule frame_sp_prims)
  also have "sp ?s3 = sp s"
    by (simp add: sp_def sent_prompts_append)
  finally show ?thesis
    by (simp add: sp_def audio_prompt_def SEPARATOR_def js_def split: option.splits)
qed

theorem C7_audio_prompt_witness:
  "sent_prompts (trace (snd (processAudioFile world_ok (js ''/tmp/bot/audio_1.mp3'') None
                               42 (js ''alice'') 100 (init False False))))
     = [js ''hello world'']
   \<and> sent_prompts (trace (snd (processAudioFile
         (world_ok\<lparr>transcribe_result := \<lambda>_. Inr (Some (replicate 6000 0x61))\<rparr>)
         (js ''/tmp/bot/audio_1.mp3'') (Some (js ''summarize'')) 42 (js ''alice'') 100
         (init False False))))
     = [replicate 6000 0x61 @ [0x0A, 0x0A, 0x2D, 0x2D, 0x2D, 0x0A, 0x0A] @ js ''summarize'']"
  using C7_audio_prompt
          [where w = world_ok and m = "\<lparr>message_id = 7, message_chat_id = 100\<rparr>"
             and filePath = "js ''/tmp/bot/audio_1.mp3''" and t = "js ''hello world''"
             and caption = None and userId = 42 and username = "js ''alice''" and chatId = 100
             and s = "init False False"]
        C7_audio_prompt
          [where w = "world_ok\<lparr>transcribe_result := \<lambda>_. Inr (Some (replicate 6000 0x61))\<rparr>"
             and m = "\<lparr>message_id = 7, message_chat_id = 100\<rparr>"
             and filePath = "js ''/tmp/bot/audio_1.mp3''" and t = "replicate 6000 0x61"
             and caption = "Some (js ''summarize'')"
             and userId = 42 and username = "js ''alice''" and chatId = 100
             and s = "init False False"]
  by (simp add: world_ok_def init_def js_def)

text \<open>
  The claim as stated writes Scenario B with a space between the separator and the
  caption. The prompt the code builds has none.
\<close>

theorem C7_scenario_B_counterexample:
  "sent_prompts (trace (snd (processAudioFile
         (world_ok\<lparr>transcribe_result := \<lambda>_. Inr (Some (replicate 6000 0x61))\<rparr>)
         (js ''/tmp/bot/audio_1.mp3'') (Some (js ''summarize'')) 42 (js ''alice'') 100
         (init False False))))
     \<noteq> [replicate 6000 0x61 @ [0x0A, 0x0A] @ js ''---'' @ [0x0A, 0x0A] @ js '' summarize'']"
  by (simp add: world_ok_def init_def processAudioFile_def audio_try_def audio_catch_def
        audio_finally_def truthy_str_def audio_prompt_def SEPARATOR_def js_def
        io_defs prim_defs)

section \<open>The conversation title\<close>

lemma video_try_edited:
  assumes "edit_result w MSG_PROCESSING_VIDEO = Inr ()"
  shows "video_try w statusMsg videoPath caption userId username chatId s
           = io_bind (sendMessageStreaming w (video_prompt videoPath caption) username userId chatId)
               (\<lambda>response.
                  io_seq (auditLog w userId username (js ''VIDEO'')
                            (or_else caption (js ''[video]'')) response)
                    (try_catch
                       (deleteMessage w (message_chat_id statusMsg) (message_id statusMsg))
                       (\<lambda>error. io_return ())))
               (s\<lparr>trace := trace s
                     @ [EditMessageText chatId (message_id statusMsg) MSG_PROCESSING_VIDEO]
                     @ (if isActive s then [] else [SetConversationTitle (video_title caption)])\<rparr>)"
  using assms by (simp add: video_try_def io_defs prim_defs split: sum.splits)

lemma title_audio_transcribed:
  assumes "TRANSCRIPTION_AVAILABLE w"
    and "reply_result w MSG_TRANSCRIBING = Inr m"
    and "transcribe_result w filePath = Inr (Some t)" and "t \<noteq> []"
    and "edit_result w (transcript_text t) = Inr ()"
  shows "title_writes (trace (snd (processAudioFile w filePath caption userId username chatId s)))
           = title_writes (trace s) @ (if isActive s then [] else [audio_title t])"
proof -
  let ?s2 = "s\<lparr>trace := trace s @ [StartProcessing, StartTypingIndicator]\<rparr>"
  let ?s3 = "?s2\<lparr>trace := trace ?s2 @ [Reply MSG_TRANSCRIBING, TranscribeVoice filePath,
                     EditMessageText chatId (message_id m) (transcript_text t)]
                     @ (if isActive ?s2 then [] else [SetConversationTitle (audio_title t)])\<rparr>"
  have run: "processAudioFile w filePath caption userId username chatId s
               = try_finally
                   (try_catch (audio_try w filePath caption userId username chatId) (audio_catch w))
                   (audio_finally w filePath) ?s2"
    using assms(1)
    by (simp add: processAudioFile_def io_seq_def io_bind_def call_def startProcessing_def
          startTypingIndicator_def)
  have rest: "frame tw (io_bind (sendMessageStreaming w (audio_prompt t caption) username userId chatId)
               (\<lambda>claudeResponse. auditLog w userId username (js ''AUDIO'') t claudeResponse))"
    by (intro frame_intros frame_tw_prims)
  have "tw (snd (processAudioFile w filePath caption userId username chatId s))
          = tw (snd (audio_try w filePath caption userId username chatId ?s2))"
    by (simp add: run frame_try_finally_fin [OF frame_tw_audio_finally]
          frame_try_catch_handler [OF frame_tw_audio_catch])
  also have "\<dots> = tw ?s3"
    unfolding audio_try_transcribed [OF assms(2-5)] using rest by (simp add: frame_def)
  finally show ?thesis
    by (simp add: tw_def title_writes_append)
qed

lemma title_video_edited:
  assumes "edit_result w MSG_PROCESSING_VIDEO = Inr ()"
  shows "title_writes (trace (snd (video_process w statusMsg videoPath caption userId username chatId s)))
           = title_writes (trace s) @ (if isActive s then [] else [video_title caption])"
proof -
  let ?s2 = "s\<lparr>trace := trace s @ [StartProcessing, StartTypingIndicator]\<rparr>"
  let ?s3 = "?s2\<lparr>trace := trace ?s2
                     @ [EditMessageText chatId (message_id statusMsg) MSG_PROCESSING_VIDEO]
                     @ (if isActive ?s2 then [] else [SetConversationTitle (video_title caption)])\<rparr>"
  have run: "video_process w statusMsg videoPath caption userId username chatId s
               = try_finally
                   (try_catch (video_try w statusMsg videoPath caption userId username chatId)
                      (video_catch w statusMsg))
                   video_finally ?s2"
    by (simp add: video_process_def io_seq_def io_bind_def call_def startProcessing_def
          startTypingIndicator_def)
  have rest: "frame tw
     (io_bind (sendMessageStreaming w (video_prompt videoPath caption) username userId chatId)
               (\<lambda>response.
                  io_seq (auditLog w userId username (js ''VIDEO'')
                            (or_else caption (js ''[video]'')) response)
                    (try_catch
                       (deleteMessage w (message_chat_id statusMsg) (message_id statusMsg))
                       (\<lambda>error. io_return ()))))"
    by (intro frame_intros frame_tw_prims)
  have "tw (snd (video_process w statusMsg videoPath caption userId username chatId s))
          = tw (snd (video_try w statusMsg videoPath caption userId username chatId ?s2))"
    by (simp add: run frame_try_finally_fin [OF frame_tw_video_finally]
          frame_try_catch_handler [OF frame_tw_video_catch])
  also have "\<dots> = tw ?s3"
    unfolding video_try_edited [OF assms] using rest by (simp add: frame_def)
  finally show ?thesis
    by (simp add: tw_def title_writes_append)
qed

lemma title_only_when_inactive:
  assumes "post tw once_titled m"
  shows "(isActive s \<longrightarrow> title_writes (trace (snd (m s))) = title_writes (trace s))
       \<and> length (title_writes (trace (snd (m s)))) \<le> length (title_writes (trace s)) + 1"
proof -
  have "once_titled (tw s) (tw (snd (m s)))" using assms by (simp add: post_def)
  then show ?thesis by (auto simp: once_titled_def tw_def)
qed

lemma audio_title_short: "length src \<le> 50 \<Longrightarrow> audio_title src = src"
  by (simp add: audio_title_def)

lemma audio_title_long:
  "length src > 50 \<Longrightarrow> audio_title src = take 47 src @ js ''...'' \<and> length (audio_title src) = 50"
  by (simp add: audio_title_def slice0_def js_def)

lemma video_title_source:
  "video_title caption
     = audio_title (case caption of None \<Rightarrow> js ''[Video]''
                    | Some c \<Rightarrow> if c = [] then js ''[Video]'' else c)"
  by (simp add: video_title_def audio_title_def or_else_def Let_def split: option.splits)

lemma handleAudio_reaches_process:
  assumes "from_id c = Some userId" and "userId \<noteq> 0"
    and "chat_id c = Some chatId" and "chatId \<noteq> 0"
    and "msg_audio c = Some audio"
    and "isAuthorized userId (ALLOWED_USERS w)"
    and "rateLimiter_check w userId = (True, retryAfter)"
    and "getFile_result w = Inr file_path"
    and "fetch_result w (file_url (api_token c) file_path) = Inr buffer"
    and "write_result w
           (audio_path (TEMP_DIR w) (date_now w) (audio_ext (audio_file_name audio))) = Inr ()"
  shows "handleAudio w c s
           = processAudioFile w
               (audio_path (TEMP_DIR w) (date_now w) (audio_ext (audio_file_name audio)))
               (msg_caption c) userId (or_else (from_username c) (js ''unknown'')) chatId
               (s\<lparr>trace := trace s @
                    [RateLimiterCheck userId, GetFile,
                     Fetch (file_url (api_token c) file_path),
                     BunWrite (audio_path (TEMP_DIR w) (date_now w)
                                 (audio_ext (audio_file_name audio))) buffer]\<rparr>)"
  using assms
  by (simp add: handleAudio_def downloadAudio_def truthy_int_def Let_def io_defs
        getFile_def fetch_def bunWrite_def rateLimiterCheck_def)

lemma handleVideo_reaches_process:
  assumes "from_id c = Some userId" and "userId \<noteq> 0"
    and "chat_id c = Some chatId" and "chatId \<noteq> 0"
    and "video_of c = Some video" and "\<not> size_exceeded video"
    and "isAuthorized userId (ALLOWED_USERS w)"
    and "rateLimiter_check w userId = (True, retryAfter)"
    and "reply_result w MSG_DOWNLOADING_VIDEO = Inr m"
    and "getFile_result w = Inr file_path"
    and "fetch_result w (file_url (api_token c) file_path) = Inr buffer"
    and "write_result w (video_path (TEMP_DIR w) (date_now w) (js ''mp4'')) = Inr ()"
  shows "handleVideo w c s
           = video_process w m (video_path (TEMP_DIR w) (date_now w) (js ''mp4''))
               (msg_caption c) userId (or_else (from_username c) (js ''unknown'')) chatId
               (s\<lparr>trace := trace s @
                    [RateLimiterCheck userId, Reply MSG_DOWNLOADING_VIDEO, GetFile,
                     Fetch (file_url (api_token c) file_path),
                     BunWrite (video_path (TEMP_DIR w) (date_now w) (js ''mp4'')) buffer]\<rparr>)"
  using assms
  by (simp add: handleVideo_def downloadVideo_def video_extension_def truthy_int_def
        Let_def io_defs reply_def getFile_def fetch_def bunWrite_def rateLimiterCheck_def)

lemma title_handleAudio_inactive:
  assumes "from_id c = Some userId" and "userId \<noteq> 0"
    and "chat_id c = Some chatId" and "chatId \<noteq> 0"
    and "msg_audio c = Some audio"
    and "isAuthorized userId (ALLOWED_USERS w)"
    and "rateLimiter_check w userId = (True, retryAfter)"
    and "getFile_result w = Inr file_path"
    and "fetch_result w (file_url (api_token c) file_path) = Inr buffer"
    and "write_result w
           (audio_path (TEMP_DIR w) (date_now w) (audio_ext (audio_file_name audio))) = Inr ()"
    and "TRANSCRIPTION_AVAILABLE w"
    and "reply_result w MSG_TRANSCRIBING = Inr m"
    and "transcribe_result w
           (audio_path (TEMP_DIR w) (date_now w) (audio_ext (audio_file_name audio)))
           = Inr (Some t)"
    and "t \<noteq> []"
    and "edit_result w (transcript_text t) = Inr ()"
    and "\<not> isActive s"
  shows "title_writes (trace (snd (handleAudio w c s))) = title_writes (trace s) @ [audio_title t]"
  unfolding handleAudio_reaches_process [OF assms(1-10)]
  using assms(16) by (simp add: title_audio_transcribed [OF assms(11-15)] title_writes_append)

lemma title_handleVideo_inactive:
  assumes "from_id c = Some userId" and "userId \<noteq> 0"
    and "chat_id c = Some chatId" and "chatId \<noteq> 0"
    and "video_of c = Some video" and "\<not> size_exceeded video"
    and "isAuthorized userId (ALLOWED_USERS w)"
    and "rateLimiter_check w userId = (True, retryAfter)"
    and "reply_result w MSG_DOWNLOADING_VIDEO = Inr m"
    and "getFile_result w = Inr file_path"
    and "fetch_result w (file_url (api_token c) file_path) = Inr buffer"
    and "write_result w (video_path (TEMP_DIR w) (date_now w) (js ''mp4'')) = Inr ()"
    and "edit_result w MSG_PROCESSING_VIDEO = Inr ()"
    and "\<not> isActive s"
  shows "title_writes (trace (snd (handleVideo w c s)))
           = title_writes (trace s) @ [video_title (msg_caption c)]"
  unfolding handleVideo_reaches_process [OF assms(1-12)]
  using assms(14) by (simp add: title_video_edited [OF assms(13)] title_writes_append)

lemma run_turn_titles:
  "length (title_writes (trace (run_turn t s)))
     \<le> length (title_writes (trace s)) + (if turn_active t then 0 else 1)"
proof -
  let ?s = "s\<lparr>isActive := turn_active t\<rparr>"
  have s: "title_writes (trace ?s) = title_writes (trace s)" "isActive ?s = turn_active t"
    by simp_all
  show ?thesis
  proof (cases "turn_media t")
    case Audio
    then show ?thesis
      using title_only_when_inactive [OF post_tw_handleAudio, of ?s "turn_world t" "turn_ctx t"] s
      by (auto simp: run_turn_def)
  next
    case Video
    then show ?thesis
      using title_only_when_inactive [OF post_tw_handleVideo, of ?s "turn_world t" "turn_ctx t"] s
      by (auto simp: run_turn_def)
  qed
qed

lemma run_turns_titles:
  "length (title_writes (trace (run_turns ts s)))
     \<le> length (title_writes (trace s)) + length (filter (\<lambda>t. \<not> turn_active t) ts)"
proof (induction ts arbitrary: s)
  case Nil
  then show ?case by simp
next
  case (Cons t ts)
  have "length (title_writes (trace (run_turns ts (run_turn t s))))
          \<le> length (title_writes (trace (run_turn t s)))
              + length (filter (\<lambda>t. \<not> turn_active t) ts)"
    by (rule Cons.IH)
  then show ?case using run_turn_titles [of t s] by auto
qed

lemma one_conversation_one_title:
  assumes "list_all turn_active rest"
  shows "length (title_writes (trace (run_turns (first # rest) s)))
           \<le> length (title_writes (trace s)) + 1"
proof -
  have "filter (\<lambda>t. \<not> turn_active t) rest = []"
    using assms by (induction rest) auto
  then show ?thesis
    using run_turns_titles [of "first # rest" s] by (auto split: if_splits)
qed

lemma active_turns_write_nothing:
  "list_all turn_active ts \<Longrightarrow> title_writes (trace (run_turns ts s)) = title_writes (trace s)"
proof (induction ts arbitrary: s)
  case Nil
  then show ?case by simp
next
  case (Cons u ts)
  let ?s = "s\<lparr>isActive := turn_active u\<rparr>"
  have act: "isActive ?s" using Cons.prems by simp
  have "title_writes (trace (run_turn u s)) = title_writes (trace s)"
  proof (cases "turn_media u")
    case Audio
    then show ?thesis
      using title_only_when_inactive [OF post_tw_handleAudio, of ?s "turn_world u" "turn_ctx u"] act
      by (simp add: run_turn_def)
  next
    case Video
    then show ?thesis
      using title_only_when_inactive [OF post_tw_handleVideo, of ?s "turn_world u" "turn_ctx u"] act
      by (simp add: run_turn_def)
  qed
  then show ?case using Cons by simp
qed

text \<open>
  Claim C8. The title is assigned only when the session reports no active conversation:
  an invocation of either handler on an active session assigns no title, whatever the
  collaborators do, and no invocation assigns more than one. On an inactive session
  \<open>handleAudio\<close>, when the gates pass, the download succeeds and the transcript is
  shown, assigns exactly the title derived from the transcript; \<open>handleVideo\<close>, when the
  gates pass, the download succeeds and the status edit is made, assigns exactly the
  title derived from the caption of the message, or from "[Video]" when the caption is
  absent or empty. The same holds of \<open>processAudioFile\<close> and of step 5 of
  \<open>handleVideo\<close> taken alone. A source of at most 50 code units is used unchanged; a
  longer one gives a title of exactly 50 code units, its first 47 followed by three dots.

  Over a sequence of turns the titles assigned are at most as many as the turns at which
  the session reported no active conversation. In one conversation, which is a first
  turn followed by turns at which the session reports the conversation active, only the
  first turn can assign a title, so at most one is assigned in its lifetime. Two turns
  at which the session reports none active start two conversations, and each may assign
  its title.
\<close>

theorem C8_conversation_title:
  "(isActive s \<longrightarrow>
       title_writes (trace (snd (handleAudio w c s))) = title_writes (trace s)
     \<and> title_writes (trace (snd (handleVideo w c s))) = title_writes (trace s))
   \<and> length (title_writes (trace (snd (handleAudio w c s)))) \<le> length (title_writes (trace s)) + 1
   \<and> length (title_writes (trace (snd (handleVideo w c s)))) \<le> length (title_writes (trace s)) + 1
   \<and> (\<not> isActive s \<and> TRANSCRIPTION_AVAILABLE w \<and> reply_result w MSG_TRANSCRIBING = Inr m
        \<and> transcribe_result w filePath = Inr (Some t) \<and> t \<noteq> []
        \<and> edit_result w (transcript_text t) = Inr () \<longrightarrow>
       title_writes (trace (snd (processAudioFile w filePath caption userId username chatId s)))
         = title_writes (trace s) @ [audio_title t])
   \<and> (\<not> isActive s \<and> edit_result w MSG_PROCESSING_VIDEO = Inr () \<longrightarrow>
       title_writes (trace (snd (video_process w statusMsg videoPath caption userId username chatId s)))
         = title_writes (trace s) @ [video_title caption])
   \<and> (length src \<le> 50 \<longrightarrow> audio_title src = src)
   \<and> (length src > 50 \<longrightarrow>
         audio_title src = take 47 src @ js ''...'' \<and> length (audio_title src) = 50)
   \<and> video_title caption
        = audio_title (case caption of None \<Rightarrow> js ''[Video]''
                       | Some c \<Rightarrow> if c = [] then js ''[Video]'' else c)
   \<and> (\<not> isActive s
        \<and> from_id c = Some userId \<and> userId \<noteq> 0 \<and> chat_id c = Some chatId \<and> chatId \<noteq> 0
        \<and> msg_audio c = Some audio
        \<and> isAuthorized userId (ALLOWED_USERS w)
        \<and> rateLimiter_check w userId = (True, retryAfter)
        \<and> getFile_result w = Inr file_path
        \<and> fetch_result w (file_url (api_token c) file_path) = Inr buffer
        \<and> write_result w
             (audio_path (TEMP_DIR w) (date_now w) (audio_ext (audio_file_name audio))) = Inr ()
        \<and> TRANSCRIPTION_AVAILABLE w \<and> reply_result w MSG_TRANSCRIBING = Inr m
        \<and> transcribe_result w
             (audio_path (TEMP_DIR w) (date_now w) (audio_ext (audio_file_name audio)))
             = Inr (Some t)
        \<and> t \<noteq> [] \<and> edit_result w (transcript_text t) = Inr () \<longrightarrow>
       title_writes (trace (snd (handleAudio w c s))) = title_writes (trace s) @ [audio_title t])
   \<and> (\<not> isActive s
        \<and> from_id c = Some userId \<and> userId \<noteq> 0 \<and> chat_id c = Some chatId \<and> chatId \<noteq> 0
        \<and> video_of c = Some video \<and> \<not> size_exceeded video
        \<and> isAuthorized userId (ALLOWED_USERS w)
        \<and> rateLimiter_check w userId = (True, retryAfter)
        \<and> reply_result w MSG_DOWNLOADING_VIDEO = Inr m
        \<and> getFile_result w = Inr file_path
        \<and> fetch_result w (file_url (api_token c) file_path) = Inr buffer
        \<and> write_result w (video_path (TEMP_DIR w) (date_now w) (js ''mp4'')) = Inr ()
        \<and> edit_result w MSG_PROCESSING_VIDEO = Inr () \<longrightarrow>
       title_writes (trace (snd (handleVideo w c s)))
         = title_writes (trace s) @ [video_title (msg_caption c)])
   \<and> length (title_writes (trace (run_turns ts s)))
        \<le> length (title_writes (trace s)) + length (filter (\<lambda>u. \<not> turn_active u) ts)
   \<and> (list_all turn_active rest \<longrightarrow>
         title_writes (trace (run_turns (first # rest) s))
           = title_writes (trace (run_turn first s))
       \<and> length (title_writes (trace (run_turns (first # rest) s)))
           \<le> length (title_writes (trace s)) + 1)"
proof -
  have active: "isActive s \<longrightarrow>
       title_writes (trace (snd (handleAudio w c s))) = title_writes (trace s)
     \<and> title_writes (trace (snd (handleVideo w c s))) = title_writes (trace s)"
    using title_only_when_inactive [OF post_tw_handleAudio, of s w c]
      title_only_when_inactive [OF post_tw_handleVideo, of s w c]
    by simp
  have once:
    "length (title_writes (trace (snd (handleAudio w c s)))) \<le> length (title_writes (trace s)) + 1"
    "length (title_writes (trace (snd (handleVideo w c s)))) \<le> length (title_writes (trace s)) + 1"
    using title_only_when_inactive [OF post_tw_handleAudio, of s w c]
      title_only_when_inactive [OF post_tw_handleVideo, of s w c]
    by simp_all
  have pipeline:
    "\<not> isActive s \<and> TRANSCRIPTION_AVAILABLE w \<and> reply_result w MSG_TRANSCRIBING = Inr m
        \<and> transcribe_result w filePath = Inr (Some t) \<and> t \<noteq> []
        \<and> edit_result w (transcript_text t) = Inr () \<longrightarrow>
       title_writes (trace (snd (processAudioFile w filePath caption userId username chatId s)))
         = title_writes (trace s) @ [audio_title t]"
    "\<not> isActive s \<and> edit_result w MSG_PROCESSING_VIDEO = Inr () \<longrightarrow>
       title_writes (trace (snd (video_process w statusMsg videoPath caption userId username chatId s)))
         = title_writes (trace s) @ [video_title caption]"
    using title_audio_transcribed [of w m filePath t caption userId username chatId s]
      title_video_edited [of w statusMsg videoPath caption userId username chatId s]
    by simp_all
  have form:
    "length src \<le> 50 \<longrightarrow> audio_title src = src"
    "length src > 50 \<longrightarrow>
         audio_title src = take 47 src @ js ''...'' \<and> length (audio_title src) = 50"
    using audio_title_short [of src] audio_title_long [of src] by blast+
  have handlers:
    "\<not> isActive s
        \<and> from_id c = Some userId \<and> userId \<noteq> 0 \<and> chat_id c = Some chatId \<and> chatId \<noteq> 0
        \<and> msg_audio c = Some audio
        \<and> isAuthorized userId (ALLOWED_USERS w)
        \<and> rateLimiter_check w userId = (True, retryAfter)
        \<and> getFile_result w = Inr file_path
        \<and> fetch_result w (file_url (api_token c) file_path) = Inr buffer
        \<and> write_result w
             (audio_path (TEMP_DIR w) (date_now w) (audio_ext (audio_file_name audio))) = Inr ()
        \<and> TRANSCRIPTION_AVAILABLE w \<and> reply_result w MSG_TRANSCRIBING = Inr m
        \<and> transcribe_result w
             (audio_path (TEMP_DIR w) (date_now w) (audio_ext (audio_file_name audio)))
             = Inr (Some t)
        \<and> t \<noteq> [] \<and> edit_result w (transcript_text t) = Inr () \<longrightarrow>
       title_writes (trace (snd (handleAudio w c s))) = title_writes (trace s) @ [audio_title t]"
    "\<not> isActive s
        \<and> from_id c = Some userId \<and> userId \<noteq> 0 \<and> chat_id c = Some chatId \<and> chatId \<noteq> 0
        \<and> video_of c = Some video \<and> \<not> size_exceeded video
        \<and> isAuthorized userId (ALLOWED_USERS w)
        \<and> rateLimiter_check w userId = (True, retryAfter)
        \<and> reply_result w MSG_DOWNLOADING_VIDEO = Inr m
        \<and> getFile_result w = Inr file_path
        \<and> fetch_result w (file_url (api_token c) file_path) = Inr buffer
        \<and> write_result w (video_path (TEMP_DIR w) (date_now w) (js ''mp4'')) = Inr ()
        \<and> edit_result w MSG_PROCESSING_VIDEO = Inr () \<longrightarrow>
       title_writes (trace (snd (handleVideo w c s)))
         = title_writes (trace s) @ [video_title (msg_caption c)]"
    using title_handleAudio_inactive
            [of c userId chatId audio w retryAfter file_path buffer m t s]
      title_handleVideo_inactive
            [of c userId chatId video w retryAfter m file_path buffer s]
    by blast+
  have turns:
    "length (title_writes (trace (run_turns ts s)))
        \<le> length (title_writes (trace s)) + length (filter (\<lambda>u. \<not> turn_active u) ts)"
    "list_all turn_active rest \<longrightarrow>
         title_writes (trace (run_turns (first # rest) s))
           = title_writes (trace (run_turn first s))
       \<and> length (title_writes (trace (run_turns (first # rest) s)))
           \<le> length (title_writes (trace s)) + 1"
    using run_turns_titles [of ts s] active_turns_write_nothing [of rest "run_turn first s"]
      one_conversation_one_title [of rest first s]
    by simp_all
  show ?thesis
    using active once pipeline form video_title_source [of caption] handlers turns
    by blast
qed

theorem C8_conversation_title_witness:
  "title_writes (trace (snd (handleAudio world_ok ctx_audio (init True False)))) = []
   \<and> title_writes (trace (snd (handleVideo world_ok
          (ctx_video\<lparr>msg_video := Some \<lparr>video_file_size = Some 1024\<rparr>\<rparr>) (init True False)))) = []
   \<and> title_writes (trace (snd (handleAudio world_ok ctx_audio (init False False))))
        = [js ''hello world'']
   \<and> title_writes (trace (snd (handleVideo world_ok
          (ctx_video\<lparr>msg_video := Some \<lparr>video_file_size = Some 1024\<rparr>\<rparr>) (init False False))))
        = [js ''[Video]'']
   \<and> title_writes (trace (snd (handleVideo world_ok
          (ctx_video\<lparr>msg_video := Some \<lparr>video_file_size = Some 1024\<rparr>,
                      msg_caption := Some (js ''holiday clip'')\<rparr>) (init False False))))
        = [js ''holiday clip'']
   \<and> title_writes (trace (snd (processAudioFile world_ok (js ''/tmp/bot/audio_1.mp3'') None
          42 (js ''alice'') 100 (init False False)))) = [js ''hello world'']
   \<and> title_writes (trace (snd (video_process world_ok \<lparr>message_id = 7, message_chat_id = 100\<rparr>
          (js ''/tmp/bot/video_1.mp4'') None 42 (js ''alice'') 100 (init False False))))
        = [js ''[Video]'']
   \<and> audio_title (js ''hello world'') = js ''hello world''
   \<and> audio_title (replicate 60 0x61) = replicate 47 0x61 @ js ''...''
   \<and> length (audio_title (replicate 60 0x61)) = 50
   \<and> title_writes (trace (run_turns
          [\<lparr>turn_media = Audio, turn_world = world_ok, turn_ctx = ctx_audio, turn_active = False\<rparr>,
           \<lparr>turn_media = Video, turn_world = world_ok,
            turn_ctx = ctx_video\<lparr>msg_video := Some \<lparr>video_file_size = Some 1024\<rparr>\<rparr>,
            turn_active = True\<rparr>,
           \<lparr>turn_media = Audio, turn_world = world_ok, turn_ctx = ctx_audio, turn_active = True\<rparr>]
          (init False False)))
        = [js ''hello world'']"
  using C8_conversation_title
          [where s = "init True False" and w = world_ok and c = ctx_audio]
        C8_conversation_title
          [where s = "init True False" and w = world_ok
             and c = "ctx_video\<lparr>msg_video := Some \<lparr>video_file_size = Some 1024\<rparr>\<rparr>"]
        C8_conversation_title
          [where s = "init False False" and w = world_ok and c = ctx_audio
             and audio = "\<lparr>audio_file_name = Some (js ''Song.MP3'')\<rparr>"
             and retryAfter = None and file_path = "js ''music/file_1.mp3''"
             and buffer = "[1, 2, 3]"
             and m = "\<lparr>message_id = 7, message_chat_id = 100\<rparr>"
             and filePath = "js ''/tmp/bot/audio_1.mp3''" and t = "js ''hello world''"
             and caption = None and userId = 42 and username = "js ''alice''" and chatId = 100
             and statusMsg = "\<lparr>message_id = 7, message_chat_id = 100\<rparr>"
             and videoPath = "js ''/tmp/bot/video_1.mp4''" and src = "js ''hello world''"
             and first = "\<lparr>turn_media = Audio, turn_world = world_ok, turn_ctx = ctx_audio,
                           turn_active = False\<rparr>"
             and rest = "[\<lparr>turn_media = Video, turn_world = world_ok,
                           turn_ctx = ctx_video\<lparr>msg_video := Some \<lparr>video_file_size = Some 1024\<rparr>\<rparr>,
                           turn_active = True\<rparr>,
                          \<lparr>turn_media = Audio, turn_world = world_ok, turn_ctx = ctx_audio,
                           turn_active = True\<rparr>]"]
        C8_conversation_title
          [where s = "init False False" and w = world_ok
             and c = "ctx_video\<lparr>msg_video := Some \<lparr>video_file_size = Some 1024\<rparr>\<rparr>"
             and video = "\<lparr>video_file_size = Some 1024\<rparr>"
             and retryAfter = None and file_path = "js ''music/file_1.mp3''"
             and buffer = "[1, 2, 3]"
             and m = "\<lparr>message_id = 7, message_chat_id = 100\<rparr>"
             and userId = 42 and chatId = 100]
        C8_conversation_title
          [where s = "init False False" and w = world_ok
             and c = "ctx_video\<lparr>msg_video := Some \<lparr>video_file_size = Some 1024\<rparr>,
                                 msg_caption := Some (js ''holiday clip'')\<rparr>"
             and video = "\<lparr>video_file_size = Some 1024\<rparr>"
             and retryAfter = None and file_path = "js ''music/file_1.mp3''"
             and buffer = "[1, 2, 3]"
             and m = "\<lparr>message_id = 7, message_chat_id = 100\<rparr>"
             and userId = 42 and chatId = 100]
        C8_conversation_title [where src = "replicate 60 0x61"]
  by (simp add: world_ok_def ctx_audio_def ctx_video_def init_def js_def isAuthorized_def
        size_exceeded_def MAX_VIDEO_SIZE_def video_of_def video_title_def or_else_def
        audio_title_def run_turn_def)

section \<open>Scratch files\<close>

lemma written_paths_append: "written_paths (xs @ ys) = written_paths xs @ written_paths ys"
  by (induction xs rule: written_paths.induct) simp_all

lemma frame_wp_prims:
  "frame wp (reply w text)"
  "frame wp (editMessageText w chatId msgId text)"
  "frame wp (deleteMessage w chatId msgId)"
  "frame wp (getFile w)"
  "frame wp (fetch w url)"
  "frame wp (unlinkSync w path)"
  "frame wp (rateLimiterCheck w userId)"
  "frame wp (auditLogRateLimit w userId username retryAfter)"
  "frame wp (auditLog w userId username kind input output)"
  "frame wp (transcribeVoice w filePath)"
  "frame wp (handleProcessingError w error)"
  "frame wp startProcessing"
  "frame wp stopProcessing"
  "frame wp startTypingIndicator"
  "frame wp typingStop"
  "frame wp (sendMessageStreaming w prompt username userId chatId)"
  "frame wp (setTitleIfNew title)"
  "frame wp consumeInterruptFlag"
  by (simp_all add: frame_def wp_def written_paths_append prim_defs io_defs)

lemma at_most_one_refl: "at_most_one a x x"
  by (simp add: at_most_one_def)

lemma post_wp_bunWrite: "post wp (at_most_one path) (bunWrite w path buffer)"
  by (simp add: post_def wp_def at_most_one_def written_paths_append bunWrite_def call_def)

lemma post_wp_write_then:
  "frame wp k \<Longrightarrow> post wp (at_most_one path) (io_seq (bunWrite w path buffer) k)"
  unfolding io_seq_def by (rule post_then_frame [OF post_wp_bunWrite])

lemma frame_wp_processAudioFile:
  "frame wp (processAudioFile w filePath caption userId username chatId)"
  unfolding processAudioFile_def audio_try_def audio_catch_def audio_finally_def
  by (intro frame_intros frame_wp_prims)

lemma frame_wp_video_process:
  "frame wp (video_process w statusMsg videoPath caption userId username chatId)"
  unfolding video_process_def video_try_def video_catch_def video_finally_def
  by (intro frame_intros frame_wp_prims)

lemma post_wp_downloadAudio:
  "post wp (at_most_one (audio_path (TEMP_DIR w) (date_now w) (audio_ext (audio_file_name audio))))
     (downloadAudio w c audio)"
  unfolding downloadAudio_def Let_def
  by (intro post_wp_write_then post_bind frame_wp_prims frame_intros at_most_one_refl)

lemma post_wp_downloadVideo:
  "post wp (at_most_one (video_path (TEMP_DIR w) (date_now w) (js ''mp4''))) (downloadVideo w c)"
  unfolding downloadVideo_def Let_def video_extension_def
  by (simp only: if_cancel)
     (intro post_if post_wp_write_then post_bind frame_wp_prims frame_intros at_most_one_refl
        post_frame [OF frame_throw])

lemma post_try_then_frame:
  assumes "post f Q m" and "\<And>e. frame f (h e)" and "\<And>a. frame f (k a)"
  shows "post f Q (io_bind (try_catch (io_bind m (\<lambda>p. io_return (Some p))) h) k)"
  by (intro post_then_frame post_try_catch_handler_frame assms frame_return)

lemma post_wp_handleAudio:
  assumes "msg_audio c = Some audio"
  shows "post wp (at_most_one (audio_path (TEMP_DIR w) (date_now w)
                                 (audio_ext (audio_file_name audio))))
           (handleAudio w c)"
proof (cases "from_id c")
  case None
  then show ?thesis
    by (simp add: handleAudio_def truthy_int_def post_frame [OF frame_return] at_most_one_refl)
next
  case u: (Some userId)
  show ?thesis
  proof (cases "chat_id c")
    case None
    then show ?thesis
      by (simp add: handleAudio_def truthy_int_def post_frame [OF frame_return] at_most_one_refl)
  next
    case (Some chatId)
    show ?thesis
      unfolding handleAudio_def Let_def
      using assms u Some
      apply (simp split del: if_split cong: if_cong)
      apply (intro post_try_then_frame post_wp_downloadAudio frame_wp_processAudioFile
          post_if post_case_prod post_bind post_seq post_frame [OF frame_return]
          post_frame [OF frame_throw] frame_wp_prims frame_intros at_most_one_refl post_case_option)
      done
  qed
qed

lemma post_wp_handleVideo:
  "post wp (at_most_one (video_path (TEMP_DIR w) (date_now w) (js ''mp4''))) (handleVideo w c)"
  unfolding handleVideo_def Let_def
  by (intro post_try_then_frame post_wp_downloadVideo frame_wp_video_process
        post_if post_case_prod post_case_option post_bind post_seq post_frame [OF frame_return]
        post_frame [OF frame_throw] frame_wp_prims frame_intros at_most_one_refl)

lemma split_acc_not_Nil: "split_acc sep cur xs \<noteq> []"
  by (induction xs arbitrary: cur) auto

lemma pop_last: "xs \<noteq> [] \<Longrightarrow> pop xs = Some (last xs)"
  by (cases xs rule: rev_cases) (simp_all add: pop_def)

lemma last_split_acc_no_sep: "sep \<notin> set xs \<Longrightarrow> last (split_acc sep cur xs) = cur @ xs"
  by (induction xs arbitrary: cur) auto

lemma last_split_acc_sep:
  "sep \<notin> set suf \<Longrightarrow> last (split_acc sep cur (pre @ sep # suf)) = suf"
proof (induction pre arbitrary: cur)
  case Nil
  then show ?case by (simp add: split_acc_not_Nil last_split_acc_no_sep)
next
  case (Cons a pre)
  then show ?case by (simp add: split_acc_not_Nil)
qed

lemma audio_ext_absent: "audio_ext None = js ''mp3''"
  by (simp add: audio_ext_def or_else_def)

lemma audio_ext_suffix:
  "0x2E \<notin> set suf \<Longrightarrow>
   audio_ext (Some (pre @ [0x2E] @ suf)) = (if suf = [] then js ''mp3'' else suf)"
  by (simp add: audio_ext_def or_else_def split_js_def pop_last split_acc_not_Nil
        last_split_acc_sep)

text \<open>
  Claim C9, as amended. Each handler writes at most one file per invocation, and only at
  the path made of \<open>TEMP_DIR\<close>, a slash, the kind, an underscore, the decimal timestamp,
  a dot and the extension. For video and video notes the extension is "mp4". For audio
  it is "mp3" when the file name is absent; for a file name with a dot it is the text
  after the last dot, as it is written, or "mp3" when that text is empty.
\<close>

theorem C9_scratch_path:
  "(msg_audio c = Some audio \<longrightarrow>
      written_paths (trace (snd (handleAudio w c s))) = written_paths (trace s)
    \<or> written_paths (trace (snd (handleAudio w c s)))
        = written_paths (trace s)
          @ [TEMP_DIR w @ js ''/audio_'' @ decimal (date_now w) @ js ''.''
               @ audio_ext (audio_file_name audio)])
   \<and> (written_paths (trace (snd (handleVideo w c s))) = written_paths (trace s)
    \<or> written_paths (trace (snd (handleVideo w c s)))
        = written_paths (trace s)
          @ [TEMP_DIR w @ js ''/video_'' @ decimal (date_now w) @ js ''.mp4''])
   \<and> audio_ext None = js ''mp3''
   \<and> (0x2E \<notin> set suf \<longrightarrow>
        audio_ext (Some (pre @ [0x2E] @ suf)) = (if suf = [] then js ''mp3'' else suf))"
proof (intro conjI impI)
  assume a: "msg_audio c = Some audio"
  show "written_paths (trace (snd (handleAudio w c s))) = written_paths (trace s)
    \<or> written_paths (trace (snd (handleAudio w c s)))
        = written_paths (trace s)
          @ [TEMP_DIR w @ js ''/audio_'' @ decimal (date_now w) @ js ''.''
               @ audio_ext (audio_file_name audio)]"
    using post_wp_handleAudio [OF a, of w]
    by (simp add: post_def at_most_one_def wp_def audio_path_def)
next
  show "written_paths (trace (snd (handleVideo w c s))) = written_paths (trace s)
    \<or> written_paths (trace (snd (handleVideo w c s)))
        = written_paths (trace s)
          @ [TEMP_DIR w @ js ''/video_'' @ decimal (date_now w) @ js ''.mp4'']"
    using post_wp_handleVideo [of w c]
    by (simp add: post_def at_most_one_def wp_def video_path_def js_def)
next
  show "audio_ext None = js ''mp3''" by (rule audio_ext_absent)
next
  assume "0x2E \<notin> set suf"
  then show "audio_ext (Some (pre @ [0x2E] @ suf)) = (if suf = [] then js ''mp3'' else suf)"
    by (rule audio_ext_suffix)
qed

theorem C9_scratch_path_witness:
  "written_paths (trace (snd (handleAudio world_ok ctx_audio (init False False))))
     = [js ''/tmp/bot/audio_1700000000000.MP3'']
   \<and> written_paths (trace (snd (handleVideo world_ok
          (ctx_video\<lparr>msg_video := Some \<lparr>video_file_size = Some 1024\<rparr>\<rparr>) (init False False))))
     = [js ''/tmp/bot/video_1700000000000.mp4'']
   \<and> audio_ext (Some (js ''archive.tar.GZ'')) = js ''GZ''
   \<and> audio_ext (Some (js ''voice.'')) = js ''mp3''"
  using C9_scratch_path
          [where c = ctx_audio and audio = "\<lparr>audio_file_name = Some (js ''Song.MP3'')\<rparr>"
             and w = world_ok and s = "init False False"
             and pre = "js ''archive.tar''" and suf = "js ''GZ''"]
        C9_scratch_path
          [where c = "ctx_video\<lparr>msg_video := Some \<lparr>video_file_size = Some 1024\<rparr>\<rparr>"
             and w = world_ok and s = "init False False"
             and pre = "js ''voice''" and suf = "[]"]
  by (simp add: world_ok_def ctx_audio_def ctx_video_def init_def
        handleAudio_def downloadAudio_def processAudioFile_def audio_try_def audio_catch_def
        audio_finally_def handleVideo_def downloadVideo_def video_try_def video_catch_def
        video_finally_def video_process_def video_of_def size_exceeded_def MAX_VIDEO_SIZE_def
        truthy_int_def truthy_str_def isAuthorized_def or_else_def Let_def js_def
        audio_ext_def pop_def split_js_def audio_path_def video_path_def video_extension_def
        decimal.simps digit_def io_defs prim_defs)

text \<open>
  The claim as stated derives the extension without regard to case. Two file names that
  differ only in the case of the suffix give two different paths.
\<close>

theorem C9_extension_case_counterexample:
  "written_paths (trace (snd (handleAudio world_ok ctx_audio (init False False))))
     = [js ''/tmp/bot/audio_1700000000000.MP3'']
   \<and> written_paths (trace (snd (handleAudio world_ok
          (ctx_audio\<lparr>msg_audio := Some \<lparr>audio_file_name = Some (js ''Song.mp3'')\<rparr>\<rparr>)
          (init False False))))
     = [js ''/tmp/bot/audio_1700000000000.mp3'']"
  by (simp add: world_ok_def ctx_audio_def init_def
        handleAudio_def downloadAudio_def processAudioFile_def audio_try_def audio_catch_def
        audio_finally_def truthy_int_def truthy_str_def isAuthorized_def or_else_def Let_def js_def
        audio_ext_def pop_def split_js_def audio_path_def
        decimal.simps digit_def io_defs prim_defs)

end
